theory Spec2Isabelle
  imports Main "HOL-Library.AList"
begin

section \<open>Go strings\<close>

text \<open>
  A Go string is a sequence of bytes, here a \<^typ>\<open>string\<close>. The helpers of package
  \<^verbatim>\<open>strings\<close> that the handlers call are written out on bytes.
\<close>

definition HasPrefix :: "string \<Rightarrow> string \<Rightarrow> bool" where
  "HasPrefix s p = (take (length p) s = p)"

definition HasSuffix :: "string \<Rightarrow> string \<Rightarrow> bool" where
  "HasSuffix s suf = (length suf \<le> length s \<and> drop (length s - length suf) s = suf)"

definition TrimSuffix :: "string \<Rightarrow> string \<Rightarrow> string" where
  "TrimSuffix s suf = (if HasSuffix s suf then take (length s - length suf) s else s)"

fun Contains :: "string \<Rightarrow> string \<Rightarrow> bool" where
  "Contains [] sub = (sub = [])"
| "Contains (c # cs) sub = (HasPrefix (c # cs) sub \<or> Contains cs sub)"

subsection \<open>UTF-8 and \<^verbatim>\<open>strings.TrimSpace\<close>\<close>

text \<open>
  \<^verbatim>\<open>utf8.DecodeRuneInString\<close>: the code point at the head of a string and its width in
  bytes. A byte that begins no well-formed shortest encoding decodes as \<^verbatim>\<open>RuneError\<close>
  of width 1; the second byte of an encoding has a range that depends on the first.
\<close>

definition RuneError :: nat where "RuneError = 0xFFFD"

definition continuation :: "nat \<Rightarrow> nat \<Rightarrow> char \<Rightarrow> bool" where
  "continuation lo hi c = (lo \<le> of_char c \<and> (of_char c :: nat) \<le> hi)"

definition DecodeRune :: "string \<Rightarrow> nat \<times> nat" where
  "DecodeRune s =
     (case s of
        [] \<Rightarrow> (RuneError, 0)
      | c0 # rest \<Rightarrow>
          let s0 = (of_char c0 :: nat) in
          if s0 < 0x80 then (s0, 1)
          else if s0 < 0xC2 \<or> 0xF4 < s0 then (RuneError, 1)
          else
            let sz = (if s0 < 0xE0 then 2 else if s0 < 0xF0 then 3 else 4 :: nat);
                lo = (if s0 = 0xE0 then 0xA0 else if s0 = 0xF0 then 0x90 else 0x80 :: nat);
                hi = (if s0 = 0xED then 0x9F else if s0 = 0xF4 then 0x8F else 0xBF :: nat)
            in if length s < sz then (RuneError, 1)
               else if \<not> continuation lo hi (s ! 1) then (RuneError, 1)
               else if sz \<le> 2 then ((s0 mod 32) * 64 + of_char (s ! 1) mod 64, 2)
               else if \<not> continuation 0x80 0xBF (s ! 2) then (RuneError, 1)
               else if sz \<le> 3 then
                 ((s0 mod 16) * 4096 + (of_char (s ! 1) mod 64) * 64 + of_char (s ! 2) mod 64, 3)
               else if \<not> continuation 0x80 0xBF (s ! 3) then (RuneError, 1)
               else ((s0 mod 8) * 262144 + (of_char (s ! 1) mod 64) * 4096
                       + (of_char (s ! 2) mod 64) * 64 + of_char (s ! 3) mod 64, 4))"

text \<open>
  \<^verbatim>\<open>utf8.DecodeLastRuneInString\<close>: the code point at the end of a string. It backs up
  over at most three bytes to the nearest byte that can begin an encoding and decodes
  from there; when the encoding found does not end with the string, the last byte is a
  \<^verbatim>\<open>RuneError\<close> of width 1.
\<close>

definition RuneStart :: "char \<Rightarrow> bool" where
  "RuneStart c = (\<not> (0x80 \<le> (of_char c :: nat) \<and> (of_char c :: nat) < 0xC0))"

definition DecodeLastRune :: "string \<Rightarrow> nat \<times> nat" where
  "DecodeLastRune s =
     (let n = length s in
      if n = 0 then (RuneError, 0)
      else
        let r = (of_char (s ! (n - 1)) :: nat) in
        if r < 0x80 then (r, 1)
        else
          let lim = n - 4;
              start = (case find (\<lambda>i. RuneStart (s ! i)) (rev [lim..<n - 1]) of
                         Some i \<Rightarrow> i
                       | None \<Rightarrow> lim - 1)
          in case DecodeRune (drop start s) of
               (r, width) \<Rightarrow> if start + width \<noteq> n then (RuneError, 1) else (r, width))"

text \<open>
  \<^verbatim>\<open>unicode.IsSpace\<close>: the white space of Latin-1, and beyond it the code points of
  the Unicode property White_Space.
\<close>

definition IsSpace :: "nat \<Rightarrow> bool" where
  "IsSpace r =
     (if r \<le> 0xFF then r \<in> set [0x09, 0x0A, 0x0B, 0x0C, 0x0D, 0x20, 0x85, 0xA0]
      else r = 0x1680 \<or> (0x2000 \<le> r \<and> r \<le> 0x200A) \<or> (0x2028 \<le> r \<and> r \<le> 0x2029) \<or>
           r = 0x202F \<or> r = 0x205F \<or> r = 0x3000)"

text \<open>
  \<^verbatim>\<open>strings.TrimSpace\<close> removes the white-space code points at the head of the string,
  then those at its end. (Its loops over ASCII bytes are a short cut to the same result.)
  A decoded code point of a non-empty string has a width of at least 1, so that dropping
  \<open>width - 1\<close> bytes after the first byte drops the code point.
\<close>

fun TrimLeft :: "string \<Rightarrow> string" where
  "TrimLeft [] = []"
| "TrimLeft (c # cs) =
     (case DecodeRune (c # cs) of
        (r, width) \<Rightarrow> if IsSpace r then TrimLeft (drop (width - 1) cs) else c # cs)"

function TrimRight :: "string \<Rightarrow> string" where
  "TrimRight s =
     (if s = [] then []
      else case DecodeLastRune s of
             (r, width) \<Rightarrow> if IsSpace r then TrimRight (take (length s - width) s) else s)"
  by pat_completeness auto
termination
proof (relation "measure length", goal_cases)
  case 1
  show ?case by simp
next
  case (2 s r width)
  then have ne: "s \<noteq> []" and dec: "DecodeLastRune s = (r, width)" and sp: "IsSpace r"
    by simp_all
  have "0 < width"
  proof (rule ccontr)
    assume "\<not> 0 < width"
    then have w: "width = 0" by simp
    define start where "start =
      (case find (\<lambda>i. RuneStart (s ! i)) (rev [length s - 4..<length s - 1]) of
         Some i \<Rightarrow> i | None \<Rightarrow> length s - 4 - 1)"
    have "start < length s"
    proof (cases "find (\<lambda>i. RuneStart (s ! i)) (rev [length s - 4..<length s - 1])")
      case None
      with ne show ?thesis by (simp add: start_def)
    next
      case (Some i)
      then have "i \<in> set (rev [length s - 4..<length s - 1])"
        by (metis find_Some_iff nth_mem)
      then have "i < length s" by auto
      with Some show ?thesis by (simp add: start_def)
    qed
    with dec w ne show False
      by (auto simp: DecodeLastRune_def Let_def start_def split: if_splits prod.splits)
  qed
  with ne show ?case
    by simp
qed

declare TrimRight.simps [simp del]

definition TrimSpace :: "string \<Rightarrow> string" where
  "TrimSpace s = TrimRight (TrimLeft s)"

subsection \<open>\<^verbatim>\<open>strings.ToLower\<close> and \<^verbatim>\<open>strings.EqualFold\<close>\<close>

text \<open>
  Both functions have a path for ASCII, written out here, and go by the case tables of
  Unicode otherwise (which lower U+0130 to \<^verbatim>\<open>i\<close> and the Kelvin sign U+212A to
  \<^verbatim>\<open>k\<close>, and fold U+017F with \<^verbatim>\<open>s\<close>). The tables are not part of the model:
  what \<^verbatim>\<open>strings.ToLower\<close> gives for a string with a byte from 0x80 on, and what
  \<^verbatim>\<open>strings.EqualFold\<close> gives for two strings that are not both ASCII, are taken
  from outside, and what is proved holds whatever they are.
\<close>

record Unicode =
  toLowerUnicode :: "string \<Rightarrow> string"
  equalFoldUnicode :: "string \<Rightarrow> string \<Rightarrow> bool"

fun isASCII :: "string \<Rightarrow> bool" where
  "isASCII [] = True"
| "isASCII (c # cs) = ((of_char c :: nat) < 0x80 \<and> isASCII cs)"

definition lower :: "char \<Rightarrow> char" where
  "lower c =
     (case map_of (zip ''ABCDEFGHIJKLMNOPQRSTUVWXYZ'' ''abcdefghijklmnopqrstuvwxyz'') c of
        None \<Rightarrow> c
      | Some l \<Rightarrow> l)"

definition upper :: "char \<Rightarrow> char" where
  "upper c =
     (case map_of (zip ''abcdefghijklmnopqrstuvwxyz'' ''ABCDEFGHIJKLMNOPQRSTUVWXYZ'') c of
        None \<Rightarrow> c
      | Some l \<Rightarrow> l)"

definition ToLower :: "Unicode \<Rightarrow> string \<Rightarrow> string" where
  "ToLower u s = (if isASCII s then map lower s else toLowerUnicode u s)"

definition EqualFold :: "Unicode \<Rightarrow> string \<Rightarrow> string \<Rightarrow> bool" where
  "EqualFold u s t =
     (if isASCII s \<and> isASCII t then map lower s = map lower t else equalFoldUnicode u s t)"

subsection \<open>\<^verbatim>\<open>url.QueryEscape\<close>\<close>

definition unreserved :: "char \<Rightarrow> bool" where
  "unreserved c =
     (c \<in> set (''abcdefghijklmnopqrstuvwxyz'' @ ''ABCDEFGHIJKLMNOPQRSTUVWXYZ'' @
               ''0123456789'' @ ''-_.~''))"

definition upperhex :: "nat \<Rightarrow> char" where
  "upperhex n = ''0123456789ABCDEF'' ! (n mod 16)"

definition escapeByte :: "char \<Rightarrow> string" where
  "escapeByte c =
     (if unreserved c then [c]
      else if c = CHR '' '' then ''+''
      else [CHR ''%'', upperhex (of_char c div 16), upperhex (of_char c)])"

definition QueryEscape :: "string \<Rightarrow> string" where
  "QueryEscape s = concat (map escapeByte s)"

section \<open>Requests, responses and handlers\<close>

text \<open>
  The request context of fasthttp, as far as the handlers read and write it. A header
  collection is the ordered list of its name/value pairs as \<^verbatim>\<open>All\<close> enumerates them.
  \<^verbatim>\<open>Peek\<close>, \<^verbatim>\<open>Set\<close> and \<^verbatim>\<open>Del\<close> first bring the name they are given into the
  canonical form of fasthttp: the first byte and every byte after a hyphen in upper case,
  the other bytes in lower case.
\<close>

type_synonym header = "(string \<times> string) list"

fun normalizeRest :: "string \<Rightarrow> string" where
  "normalizeRest [] = []"
| "normalizeRest [c] = (if c = CHR ''-'' then [c] else [lower c])"
| "normalizeRest (c # d # ds) =
     (if c = CHR ''-'' then c # upper d # normalizeRest ds
      else lower c # normalizeRest (d # ds))"

definition normalizeHeaderKey :: "string \<Rightarrow> string" where
  "normalizeHeaderKey k = (case k of [] \<Rightarrow> [] | c # cs \<Rightarrow> upper c # normalizeRest cs)"

text \<open>
  \<^verbatim>\<open>Peek\<close> answers the first pair of the name and the empty string for an absent one.
  \<^verbatim>\<open>Set\<close> overwrites the first pair of the name, or appends a pair when there is none.
  \<^verbatim>\<open>Del\<close> removes every pair of the name.
\<close>

definition Peek :: "header \<Rightarrow> string \<Rightarrow> string" where
  "Peek h k = (case map_of h (normalizeHeaderKey k) of None \<Rightarrow> [] | Some v \<Rightarrow> v)"

definition SetHeader :: "string \<Rightarrow> string \<Rightarrow> header \<Rightarrow> header" where
  "SetHeader k v h = AList.update (normalizeHeaderKey k) v h"

text \<open>
  Four names are set aside: fasthttp computes \<^verbatim>\<open>Content-Length\<close> and
  \<^verbatim>\<open>Transfer-Encoding\<close> by itself, and parses and renders again what is set for
  \<^verbatim>\<open>Cookie\<close> and \<^verbatim>\<open>Trailer\<close>, so that for them \<^verbatim>\<open>Peek\<close> after \<^verbatim>\<open>Set\<close> need
  not answer the value that was set. Statements on what \<^verbatim>\<open>Set\<close> leaves to be read
  are made for the other names.
\<close>

definition selfManaged :: "string \<Rightarrow> bool" where
  "selfManaged k =
     (normalizeHeaderKey k \<in> set [''Content-Length'', ''Transfer-Encoding'', ''Cookie'', ''Trailer''])"

definition DelHeader :: "string \<Rightarrow> header \<Rightarrow> header" where
  "DelHeader k h = AList.delete (normalizeHeaderKey k) h"

text \<open>
  The pairs of a map with their names in canonical form: what \<^verbatim>\<open>Peek\<close> can find of
  a map once its pairs have been set.
\<close>

definition canonical :: "(string \<times> string) list \<Rightarrow> header" where
  "canonical kvs = map (\<lambda>(k, v). (normalizeHeaderKey k, v)) kvs"

text \<open>
  Cookies, query arguments and form arguments are looked up by their exact name, the
  first pair of the name, with the empty string for an absent one.
\<close>

definition peekArg :: "(string \<times> string) list \<Rightarrow> string \<Rightarrow> string" where
  "peekArg args k = (case map_of args k of None \<Rightarrow> [] | Some v \<Rightarrow> v)"

record Request =
  Method :: string
  Path :: string
  RequestURI :: string
  Header :: header
  Cookies :: "(string \<times> string) list"
  QueryArgs :: "(string \<times> string) list"
  PostArgs :: "(string \<times> string) list"
  Body :: string

text \<open>
  A cookie of fasthttp: the zero value has no expiry (\<open>Expire = None\<close>) and no
  max-age (\<open>MaxAge = 0\<close>).
\<close>

record Cookie =
  Key :: string
  Value :: string
  CookiePath :: string
  HTTPOnly :: bool
  Expire :: "int option"
  MaxAge :: int

definition zeroCookie :: Cookie where
  "zeroCookie =
     \<lparr>Key = [], Value = [], CookiePath = [], HTTPOnly = False, Expire = None, MaxAge = 0\<rparr>"

text \<open>
  A response body is either raw bytes or the structured error of the helper
  \<^verbatim>\<open>SendError\<close>. A status code that was never set reads as 200, as in fasthttp.
\<close>

datatype body = Bytes string | ErrorBody nat string

record Response =
  statusCode :: nat
  RespHeader :: header
  ContentType :: string
  SetCookies :: "Cookie list"
  RespBody :: body

definition StatusCode :: "Response \<Rightarrow> nat" where
  "StatusCode r = (if statusCode r = 0 then 200 else statusCode r)"

text \<open>
  The context a handler works on: the request, the response under construction and the
  warnings written to the logger so far.
\<close>

record RequestCtx =
  Req :: Request
  Resp :: Response
  Warnings :: "string list"

type_synonym RequestHandler = "RequestCtx \<Rightarrow> RequestCtx"

type_synonym BifrostHTTPMiddleware = "RequestHandler \<Rightarrow> RequestHandler"

definition SetStatusCode :: "nat \<Rightarrow> RequestCtx \<Rightarrow> RequestCtx" where
  "SetStatusCode n ctx = ctx\<lparr>Resp := (Resp ctx)\<lparr>statusCode := n\<rparr>\<rparr>"

definition SetRespHeader :: "string \<Rightarrow> string \<Rightarrow> RequestCtx \<Rightarrow> RequestCtx" where
  "SetRespHeader k v ctx = ctx\<lparr>Resp := (Resp ctx)\<lparr>RespHeader := SetHeader k v (RespHeader (Resp ctx))\<rparr>\<rparr>"

definition SetContentType :: "string \<Rightarrow> RequestCtx \<Rightarrow> RequestCtx" where
  "SetContentType t ctx = ctx\<lparr>Resp := (Resp ctx)\<lparr>ContentType := t\<rparr>\<rparr>"

definition SetBody :: "string \<Rightarrow> RequestCtx \<Rightarrow> RequestCtx" where
  "SetBody b ctx = ctx\<lparr>Resp := (Resp ctx)\<lparr>RespBody := Bytes b\<rparr>\<rparr>"

text \<open>Setting a cookie overwrites the first cookie of the same key, or appends it.\<close>

fun putCookie :: "Cookie \<Rightarrow> Cookie list \<Rightarrow> Cookie list" where
  "putCookie c [] = [c]"
| "putCookie c (d # ds) = (if Key d = Key c then c # ds else d # putCookie c ds)"

definition SetCookie :: "Cookie \<Rightarrow> RequestCtx \<Rightarrow> RequestCtx" where
  "SetCookie c ctx = ctx\<lparr>Resp := (Resp ctx)\<lparr>SetCookies := putCookie c (SetCookies (Resp ctx))\<rparr>\<rparr>"

text \<open>
  Modelled from the spec: \<^verbatim>\<open>SendError\<close>, the shared helper of the handlers package,
  is not among the sources. The spec has it produce a structured body of status and
  message, with the status code conveying the error kind.
\<close>

definition SendError :: "RequestCtx \<Rightarrow> nat \<Rightarrow> string \<Rightarrow> RequestCtx" where
  "SendError ctx status message =
     ctx\<lparr>Resp := (Resp ctx)\<lparr>statusCode := status, RespBody := ErrorBody status message\<rparr>\<rparr>"

definition StatusOK :: nat where "StatusOK = 200"
definition StatusFound :: nat where "StatusFound = 302"
definition StatusBadRequest :: nat where "StatusBadRequest = 400"
definition StatusUnauthorized :: nat where "StatusUnauthorized = 401"
definition StatusNotFound :: nat where "StatusNotFound = 404"
definition StatusInternalServerError :: nat where "StatusInternalServerError = 500"
definition StatusServiceUnavailable :: nat where "StatusServiceUnavailable = 503"

definition MethodGet :: string where "MethodGet = ''GET''"
definition MethodPost :: string where "MethodPost = ''POST''"

section \<open>Plugins and configuration\<close>

text \<open>
  A Go map is the list of its entries, in whichever order the runtime ranges over them,
  or \<open>None\<close> for the nil map. Reading a nil map finds nothing and ranging over it
  runs no iteration.
\<close>

type_synonym ('k, 'v) gomap = "('k \<times> 'v) list option"

definition entries :: "('k, 'v) gomap \<Rightarrow> ('k \<times> 'v) list" where
  "entries m = (case m of None \<Rightarrow> [] | Some kvs \<Rightarrow> kvs)"

definition exists :: "('k, 'v) gomap \<Rightarrow> 'k \<Rightarrow> bool" where
  "exists m k = (map_of (entries m) k \<noteq> None)"

text \<open>
  A plugin is an external collaborator with a name and a transform. The transform is
  called with the request URI and with the working header map and body map themselves,
  not with copies, and a plugin may keep state of its own or share state with other
  plugins (\<open>'s\<close>). What a call does is therefore: the entries it leaves in the header
  map and in the body map that it was given, the state it leaves, and what it returns, an
  error (\<open>Inl\<close>, with its message) or a header map and a body map (\<open>Inr\<close>), either
  of which may be nil. The values of the body map are left open (\<open>'v\<close>).
\<close>

record ('v, 's) Outcome =
  headersLeft :: "(string \<times> string) list"
  bodyLeft :: "(string \<times> 'v) list"
  stateLeft :: 's
  returned :: "string + ((string, string) gomap \<times> (string, 'v) gomap)"

record ('v, 's) Plugin =
  GetName :: string
  TransportInterceptor ::
    "string \<Rightarrow> (string, string) gomap \<Rightarrow> (string, 'v) gomap \<Rightarrow> 's \<Rightarrow> ('v, 's) Outcome"

text \<open>
  A map after a call that was given it: a nil map cannot be written and stays nil, any
  other map holds the entries that the call left in it.
\<close>

definition inPlace :: "('k, 'a) gomap \<Rightarrow> ('k \<times> 'a) list \<Rightarrow> ('k, 'a) gomap" where
  "inPlace m left = (case m of None \<Rightarrow> None | Some kvs \<Rightarrow> Some left)"

text \<open>The outcome of a call that writes nothing: maps and state are left as they were.\<close>

definition untouched ::
  "(string, string) gomap \<Rightarrow> (string, 'v) gomap \<Rightarrow> 's \<Rightarrow>
     string + ((string, string) gomap \<times> (string, 'v) gomap) \<Rightarrow> ('v, 's) Outcome" where
  "untouched h b s r = \<lparr>headersLeft = entries h, bodyLeft = entries b, stateLeft = s, returned = r\<rparr>"

record ('v, 's) Config =
  AdminSecret :: string
  AdminCookieName :: string
  GetLoadedPlugins :: "('v, 's) Plugin list"

text \<open>
  What the handlers take from outside the repository and the model does not fix: the
  name constant of the governance plugin, \<^verbatim>\<open>json.Unmarshal\<close> into a map of
  \<^verbatim>\<open>map[string]any\<close> (an error, or the map, nil for the JSON text \<^verbatim>\<open>null\<close>),
  \<^verbatim>\<open>json.Marshal\<close> of such a map (an error or the bytes) and
  \<^verbatim>\<open>mime.TypeByExtension\<close>.
\<close>

record 'v Externals =
  governancePluginName :: string
  jsonUnmarshal :: "string \<Rightarrow> string + (string, 'v) gomap"
  jsonMarshal :: "(string, 'v) gomap \<Rightarrow> string + string"
  mimeTypeByExtension :: "string \<Rightarrow> string"

section \<open>The transport interceptor middleware\<close>

definition Warn :: "string \<Rightarrow> RequestCtx \<Rightarrow> RequestCtx" where
  "Warn msg ctx = ctx\<lparr>Warnings := Warnings ctx @ [msg]\<rparr>"

fun hasGovernance :: "string \<Rightarrow> ('v, 's) Plugin list \<Rightarrow> bool" where
  "hasGovernance name [] = False"
| "hasGovernance name (p # ps) = (if GetName p = name then True else hasGovernance name ps)"

text \<open>
  Parsing the headers: every pair of the request goes into the map, a later value of a
  name over an earlier one, and its name onto the list of original names.
\<close>

fun parseHeaders ::
  "header \<Rightarrow> (string \<times> string) list \<times> string list \<Rightarrow> (string \<times> string) list \<times> string list" where
  "parseHeaders [] acc = acc"
| "parseHeaders ((key, val) # rest) (headers, originalHeaderNames) =
     parseHeaders rest (AList.update key val headers, originalHeaderNames @ [key])"

definition pluginErrorMessage :: "string \<Rightarrow> string \<Rightarrow> string" where
  "pluginErrorMessage name err =
     ''TransportInterceptor: Plugin '' @ [CHR 0x27] @ name @ [CHR 0x27] @ '' returned error: '' @ err"

text \<open>
  The loop over the plugins, on the working header map, the working body map, the
  warnings logged so far and the state of the plugins. After a call the working maps are
  the maps that were passed, with the entries the call left in them, unless the call
  succeeded and returned a map that is not nil.
\<close>

fun callPlugins ::
  "string \<Rightarrow> ('v, 's) Plugin list \<Rightarrow>
     (string, string) gomap \<times> (string, 'v) gomap \<times> string list \<times> 's \<Rightarrow>
     (string, string) gomap \<times> (string, 'v) gomap \<times> string list \<times> 's" where
  "callPlugins uri [] st = st"
| "callPlugins uri (plugin # rest) (headers, requestBody, warnings, state) =
     (let out = TransportInterceptor plugin uri headers requestBody state;
          headers = inPlace headers (headersLeft out);
          requestBody = inPlace requestBody (bodyLeft out)
      in case returned out of
           Inl err \<Rightarrow>
             callPlugins uri rest
               (headers, requestBody, warnings @ [pluginErrorMessage (GetName plugin) err],
                stateLeft out)
         | Inr (modifiedHeaders, modifiedBody) \<Rightarrow>
             callPlugins uri rest
               (if modifiedHeaders \<noteq> None then modifiedHeaders else headers,
                if modifiedBody \<noteq> None then modifiedBody else requestBody,
                warnings, stateLeft out))"

fun removeDeleted :: "string list \<Rightarrow> (string, string) gomap \<Rightarrow> header \<Rightarrow> header" where
  "removeDeleted [] headers h = h"
| "removeDeleted (name # names) headers h =
     removeDeleted names headers (if \<not> exists headers name then DelHeader name h else h)"

fun setModified :: "(string \<times> string) list \<Rightarrow> header \<Rightarrow> header" where
  "setModified [] h = h"
| "setModified ((key, val) # rest) h = setModified rest (SetHeader key val h)"

text \<open>
  The middleware. The state of the plugins when the request arrives is a parameter; the
  state they leave is of no consequence for the request.
\<close>

definition TransportInterceptorMiddleware ::
  "'v Externals \<Rightarrow> ('v, 's) Config \<Rightarrow> 's \<Rightarrow> BifrostHTTPMiddleware" where
  "TransportInterceptorMiddleware ext config state next ctx =
     (let plugins = GetLoadedPlugins config in
      if length plugins = 0 then next ctx
      else if \<not> hasGovernance (governancePluginName ext) plugins then next ctx
      else
        let (headers, originalHeaderNames) = parseHeaders (Header (Req ctx)) ([], []);
            bodyBytes = Body (Req ctx)
        in case (if length bodyBytes > 0 then jsonUnmarshal ext bodyBytes else Inr (Some [])) of
             Inl err \<Rightarrow>
               next (Warn (''TransportInterceptor: Failed to unmarshal request body: '' @ err) ctx)
           | Inr requestBody \<Rightarrow>
               (case callPlugins (RequestURI (Req ctx)) plugins
                       (Some headers, requestBody, Warnings ctx, state) of
                  (headers', requestBody', warnings', state') \<Rightarrow>
                    (case jsonMarshal ext requestBody' of
                       Inl err \<Rightarrow>
                         SendError (ctx\<lparr>Warnings := warnings'\<rparr>) StatusInternalServerError
                           (''TransportInterceptor: Failed to marshal request body: '' @ err)
                     | Inr updatedBody \<Rightarrow>
                         next (ctx\<lparr>Req := (Req ctx)
                                  \<lparr>Body := updatedBody,
                                   Header := setModified (entries headers')
                                     (removeDeleted originalHeaderNames headers' (Header (Req ctx)))\<rparr>,
                                 Warnings := warnings'\<rparr>))))"

section \<open>Chaining middlewares\<close>

text \<open>
  The loop of \<^verbatim>\<open>ChainMiddlewares\<close> counts \<open>i\<close> down from the last index to 0; the
  counter here is \<open>i + 1\<close>.
\<close>

fun chainLoop :: "BifrostHTTPMiddleware list \<Rightarrow> nat \<Rightarrow> RequestHandler \<Rightarrow> RequestHandler" where
  "chainLoop middlewares 0 chained = chained"
| "chainLoop middlewares (Suc i) chained = chainLoop middlewares i ((middlewares ! i) chained)"

definition ChainMiddlewares :: "RequestHandler \<Rightarrow> BifrostHTTPMiddleware list \<Rightarrow> RequestHandler" where
  "ChainMiddlewares handler middlewares =
     (if length middlewares = 0 then handler
      else chainLoop middlewares (length middlewares) handler)"

section \<open>The admin gate\<close>

definition isPublicPath :: "string \<Rightarrow> string \<Rightarrow> bool" where
  "isPublicPath method path =
     (if path = ''/metrics'' \<and> method = MethodGet then True
      else if HasPrefix path ''/v1/'' \<and> method = MethodPost then True
      else if (HasPrefix path ''/openai/'' \<or> HasPrefix path ''/openai/v1/'') \<and> method = MethodPost
        then True
      else if (path = ''/openai/models'' \<or> path = ''/openai/v1/models'') \<and> method = MethodGet
        then True
      else if HasPrefix path ''/admin/login'' then True
      else if path = ''/api/version'' \<and> method = MethodGet then True
      else False)"

text \<open>
  The bearer check of the middleware: the prefix is tested on the trimmed, lower-cased
  header value; the token is cut from the header value as it came, at the length of
  \<^verbatim>\<open>"Bearer "\<close>, and then trimmed.
\<close>

definition bearerMatches :: "Unicode \<Rightarrow> string \<Rightarrow> string \<Rightarrow> bool" where
  "bearerMatches u auth secret =
     (auth \<noteq> [] \<and> HasPrefix (ToLower u (TrimSpace auth)) ''bearer '' \<and>
      TrimSpace (drop (length ''Bearer '') auth) = secret)"

definition cookieMatches :: "string \<Rightarrow> string \<Rightarrow> bool" where
  "cookieMatches c secret = (c \<noteq> [] \<and> c = secret)"

definition wantsJSON :: "Unicode \<Rightarrow> Request \<Rightarrow> bool" where
  "wantsJSON u r =
     (Contains (ToLower u (Peek (Header r) ''Accept'')) ''application/json'' \<or>
      EqualFold u (Peek (Header r) ''X-Requested-With'') ''XMLHttpRequest'' \<or>
      HasPrefix (Path r) ''/api/'')"

definition AdminAuthMiddleware :: "Unicode \<Rightarrow> ('v, 's) Config \<Rightarrow> BifrostHTTPMiddleware" where
  "AdminAuthMiddleware u config next ctx =
     (if TrimSpace (AdminSecret config) = [] then next ctx
      else
        let method = Method (Req ctx); path = Path (Req ctx) in
        if isPublicPath method path then next ctx
        else if bearerMatches u (Peek (Header (Req ctx)) ''Authorization'') (AdminSecret config)
          then next ctx
        else if cookieMatches (peekArg (Cookies (Req ctx)) (AdminCookieName config)) (AdminSecret config)
          then next ctx
        else if wantsJSON u (Req ctx) \<or> HasPrefix path ''/v1/'' \<or> HasPrefix path ''/api/''
          then SendError ctx StatusUnauthorized ''admin authentication required''
        else
          SetStatusCode StatusFound
            (SetRespHeader ''Location'' (''/admin/login?next='' @ QueryEscape path) ctx))"

text \<open>
  The bearer condition as the specification words it: the header value, once trimmed,
  begins with \<^verbatim>\<open>bearer \<close> in any case, and what follows that prefix, trimmed again, is
  the secret.
\<close>

definition bearerTokenMatches :: "Unicode \<Rightarrow> string \<Rightarrow> string \<Rightarrow> bool" where
  "bearerTokenMatches u auth secret =
     (HasPrefix (ToLower u (TrimSpace auth)) ''bearer '' \<and>
      TrimSpace (drop (length ''bearer '') (TrimSpace auth)) = secret)"

section \<open>The static UI server and the login flow\<close>

subsection \<open>\<^verbatim>\<open>path.Clean\<close>, \<^verbatim>\<open>filepath.Base\<close> and \<^verbatim>\<open>filepath.Ext\<close>\<close>

text \<open>
  \<^verbatim>\<open>path.Clean\<close> as the Go library computes it: \<open>out\<close> is the output buffer,
  \<open>dotdot\<close> the length of the part of it that a \<^verbatim>\<open>..\<close> element must not remove.
\<close>

fun backtrack :: "string \<Rightarrow> nat \<Rightarrow> nat \<Rightarrow> nat" where
  "backtrack out dotdot w =
     (if w > dotdot \<and> out ! w \<noteq> CHR ''/'' then backtrack out dotdot (w - 1) else w)"

declare backtrack.simps [simp del]

function cleanLoop :: "bool \<Rightarrow> string \<Rightarrow> string \<Rightarrow> nat \<Rightarrow> string" where
  "cleanLoop rooted [] out dotdot = out"
| "cleanLoop rooted (c # cs) out dotdot =
     (if c = CHR ''/'' then cleanLoop rooted cs out dotdot
      else if c = CHR ''.'' \<and> (cs = [] \<or> hd cs = CHR ''/'') then cleanLoop rooted cs out dotdot
      else if c = CHR ''.'' \<and> cs \<noteq> [] \<and> hd cs = CHR ''.'' \<and>
              (tl cs = [] \<or> hd (tl cs) = CHR ''/'') then
        (if length out > dotdot
           then cleanLoop rooted (tl cs) (take (backtrack out dotdot (length out - 1)) out) dotdot
         else if \<not> rooted
           then cleanLoop rooted (tl cs)
                  ((if length out > 0 then out @ ''/'' else out) @ ''..'')
                  (length ((if length out > 0 then out @ ''/'' else out) @ ''..''))
         else cleanLoop rooted (tl cs) out dotdot)
      else
        cleanLoop rooted (dropWhile (\<lambda>x. x \<noteq> CHR ''/'') cs)
          ((if rooted \<and> length out \<noteq> 1 \<or> \<not> rooted \<and> length out \<noteq> 0 then out @ ''/'' else out)
             @ c # takeWhile (\<lambda>x. x \<noteq> CHR ''/'') cs)
          dotdot)"
  by pat_completeness auto
termination
  by (relation "measure (\<lambda>(rooted, p, out, dotdot). length p)")
     (auto simp: less_Suc_eq_le length_dropWhile_le)

definition Clean :: "string \<Rightarrow> string" where
  "Clean path =
     (if path = [] then ''.''
      else
        let rooted = (hd path = CHR ''/'');
            out = (if rooted
                   then cleanLoop rooted (tl path) ''/'' 1
                   else cleanLoop rooted path [] 0)
        in if length out = 0 then ''.'' else out)"

definition Base :: "string \<Rightarrow> string" where
  "Base path =
     (if path = [] then ''.''
      else
        let stripped = rev (dropWhile (\<lambda>c. c = CHR ''/'') (rev path));
            element = rev (takeWhile (\<lambda>c. c \<noteq> CHR ''/'') (rev stripped))
        in if element = [] then ''/'' else element)"

definition Ext :: "string \<Rightarrow> string" where
  "Ext path =
     (let element = rev (takeWhile (\<lambda>c. c \<noteq> CHR ''/'') (rev path))
      in if CHR ''.'' \<in> set element
         then CHR ''.'' # rev (takeWhile (\<lambda>c. c \<noteq> CHR ''.'') (rev element))
         else [])"

subsection \<open>The handler\<close>

text \<open>
  The embedded file system answers \<^verbatim>\<open>ReadFile\<close> with the bytes of a file, or
  \<open>None\<close> for its error. The configuration may be absent (nil).
\<close>

record ('v, 's) UIHandler =
  uiContent :: "string \<Rightarrow> string option"
  config :: "('v, 's) Config option"

text \<open>The path looked up in the bundle for a request path.\<close>

definition bundlePath :: "string \<Rightarrow> string" where
  "bundlePath requestPath =
     (let cleanPath = Clean requestPath;
          cleanPath =
            (if HasSuffix cleanPath ''.txt''
             then let basePath = TrimSuffix cleanPath ''.txt'';
                      basePath = (if basePath = ''/'' \<or> basePath = [] then ''/index'' else basePath)
                  in basePath @ ''/index.txt''
             else cleanPath)
      in if cleanPath = ''/'' then ''ui/index.html'' else ''ui'' @ cleanPath)"

text \<open>Content type, cache headers and body of a file that was found.\<close>

definition sendFile :: "'v Externals \<Rightarrow> string \<Rightarrow> string \<Rightarrow> RequestCtx \<Rightarrow> RequestCtx" where
  "sendFile ext cleanPath data ctx =
     (let e = Ext cleanPath;
          contentType = mimeTypeByExtension ext e;
          contentType = (if contentType = [] then ''application/octet-stream'' else contentType);
          ctx = SetContentType contentType ctx;
          ctx =
            (if HasPrefix cleanPath ''ui/_next/static/''
               then SetRespHeader ''Cache-Control'' ''public, max-age=31536000, immutable'' ctx
             else if e = ''.html'' then SetRespHeader ''Cache-Control'' ''no-cache'' ctx
             else SetRespHeader ''Cache-Control'' ''public, max-age=3600'' ctx)
      in SetBody data ctx)"

definition serveDashboard :: "'v Externals \<Rightarrow> ('v, 's) UIHandler \<Rightarrow> RequestHandler" where
  "serveDashboard ext h ctx =
     (let requestPath = Path (Req ctx);
          cleanPath = bundlePath requestPath;
          hasExtension = Contains (Base cleanPath) ''.''
      in case uiContent h cleanPath of
           Some data \<Rightarrow> sendFile ext cleanPath data ctx
         | None \<Rightarrow>
             if hasExtension
               then SetBody (''404 - Static asset not found: '' @ requestPath)
                      (SetStatusCode StatusNotFound ctx)
             else if \<not> hasExtension then
               (let indexPath = cleanPath @ ''/index.html'' in
                case uiContent h indexPath of
                  Some data \<Rightarrow> sendFile ext indexPath data ctx
                | None \<Rightarrow>
                    (case uiContent h ''ui/index.html'' of
                       None \<Rightarrow> SetBody ''404 - File not found'' (SetStatusCode StatusNotFound ctx)
                     | Some data \<Rightarrow> sendFile ext ''ui/index.html'' data ctx))
             else SetBody ''404 - File not found'' (SetStatusCode StatusNotFound ctx))"

text \<open>The login page: the form, with the redirect target in a hidden field.\<close>

definition loginForm :: "string \<Rightarrow> string" where
  \<open>loginForm nxt =
     ''<!doctype html>'' @ [CHR 0x0A] @
     ''<html><head><meta charset="utf-8"><title>Bifrost Admin Login</title>'' @ [CHR 0x0A] @
     ''<style>body{font-family:system-ui,-apple-system,Segoe UI,Roboto,Ubuntu,Cantarell,Noto Sans,sans-serif;max-width:420px;margin:10vh auto;padding:24px}form{display:flex;flex-direction:column;gap:12px}input[type=password]{padding:10px;font-size:16px}button{padding:10px 14px;font-size:16px;cursor:pointer}</style>'' @ [CHR 0x0A] @
     ''</head><body>'' @ [CHR 0x0A] @
     ''<h2>Admin Login</h2>'' @ [CHR 0x0A] @
     ''<p>To obtain the admin password, run <code>operator bifrost password</code> locally.</p>'' @ [CHR 0x0A] @
     ''<form method="post" action="/admin/login">'' @ [CHR 0x0A] @
     ''  <input type="hidden" name="next" value="'' @ nxt @ ''" />'' @ [CHR 0x0A] @
     ''  <label>Password</label>'' @ [CHR 0x0A] @
     ''  <input type="password" name="password" autofocus required />'' @ [CHR 0x0A] @
     ''  <button type="submit">Sign in</button>'' @ [CHR 0x0A] @
     ''</form>'' @ [CHR 0x0A] @
     ''</body></html>''\<close>

definition loginPage :: "('v, 's) UIHandler \<Rightarrow> RequestHandler" where
  "loginPage h ctx =
     (let ctx = SetContentType ''text/html; charset=utf-8'' ctx;
          nxt = peekArg (QueryArgs (Req ctx)) ''next'';
          nxt = (if nxt = [] then ''/'' else nxt)
      in SetBody (loginForm nxt) (SetStatusCode StatusOK ctx))"

definition invalidPasswordPage :: string where
  \<open>invalidPasswordPage =
     ''<html><body><p>Invalid password</p><a href="/admin/login">Try again</a></body></html>''\<close>

definition loginSubmit :: "('v, 's) UIHandler \<Rightarrow> RequestHandler" where
  "loginSubmit h ctx =
     (case config h of
        None \<Rightarrow> SendError ctx StatusServiceUnavailable ''admin auth not configured''
      | Some cfg \<Rightarrow>
          if TrimSpace (AdminSecret cfg) = []
            then SendError ctx StatusServiceUnavailable ''admin auth not configured''
          else
            let password = peekArg (PostArgs (Req ctx)) ''password'';
                nxt = peekArg (PostArgs (Req ctx)) ''next''
            in if password = [] then SendError ctx StatusBadRequest ''password is required''
               else if password \<noteq> AdminSecret cfg
                 then SetBody invalidPasswordPage
                        (SetStatusCode StatusUnauthorized
                           (SetContentType ''text/html; charset=utf-8'' ctx))
               else
                 let cookieName = AdminCookieName cfg;
                     cookieName = (if cookieName = [] then ''bf_admin'' else cookieName);
                     c = zeroCookie\<lparr>Key := cookieName, Value := AdminSecret cfg,
                                    CookiePath := ''/'', HTTPOnly := True\<rparr>;
                     ctx = SetCookie c ctx;
                     nxt = (if nxt = [] \<or> Contains nxt ''://'' then ''/'' else nxt)
                 in SetStatusCode StatusFound (SetRespHeader ''Location'' nxt ctx))"

section \<open>Middlewares in step form\<close>

text \<open>
  The middlewares of the repository do their work on the context and then either invoke
  the next stage as their last action or return. Such a middleware is given by a step: the
  context it leaves and whether it goes on.
\<close>

definition middlewareOf :: "(RequestCtx \<Rightarrow> RequestCtx \<times> bool) \<Rightarrow> BifrostHTTPMiddleware" where
  "middlewareOf step next ctx =
     (case step ctx of (ctx', proceed) \<Rightarrow> if proceed then next ctx' else ctx')"

fun runSteps :: "(RequestCtx \<Rightarrow> RequestCtx \<times> bool) list \<Rightarrow> RequestCtx \<Rightarrow> RequestCtx \<times> bool" where
  "runSteps [] ctx = (ctx, True)"
| "runSteps (step # steps) ctx =
     (case step ctx of (ctx', proceed) \<Rightarrow> if proceed then runSteps steps ctx' else (ctx', False))"

text \<open>
  The transport interceptor in step form: the same computation, with the context handed to
  the next stage and \<open>True\<close> where the middleware invokes it, and the context left
  behind and \<open>False\<close> where it returns without doing so.
\<close>

definition interceptStep ::
  "'v Externals \<Rightarrow> ('v, 's) Config \<Rightarrow> 's \<Rightarrow> RequestCtx \<Rightarrow> RequestCtx \<times> bool" where
  "interceptStep ext cfg state ctx =
     (let plugins = GetLoadedPlugins cfg in
      if length plugins = 0 then (ctx, True)
      else if \<not> hasGovernance (governancePluginName ext) plugins then (ctx, True)
      else
        let (headers, originalHeaderNames) = parseHeaders (Header (Req ctx)) ([], []);
            bodyBytes = Body (Req ctx)
        in case (if length bodyBytes > 0 then jsonUnmarshal ext bodyBytes else Inr (Some [])) of
             Inl err \<Rightarrow>
               (Warn (''TransportInterceptor: Failed to unmarshal request body: '' @ err) ctx, True)
           | Inr requestBody \<Rightarrow>
               (case callPlugins (RequestURI (Req ctx)) plugins
                       (Some headers, requestBody, Warnings ctx, state) of
                  (headers', requestBody', warnings', state') \<Rightarrow>
                    (case jsonMarshal ext requestBody' of
                       Inl err \<Rightarrow>
                         (SendError (ctx\<lparr>Warnings := warnings'\<rparr>) StatusInternalServerError
                            (''TransportInterceptor: Failed to marshal request body: '' @ err), False)
                     | Inr updatedBody \<Rightarrow>
                         (ctx\<lparr>Req := (Req ctx)
                                  \<lparr>Body := updatedBody,
                                   Header := setModified (entries headers')
                                     (removeDeleted originalHeaderNames headers' (Header (Req ctx)))\<rparr>,
                                 Warnings := warnings'\<rparr>, True))))"

section \<open>White space in UTF-8\<close>

text \<open>
  The white-space code points of Unicode with their encodings in UTF-8: the six of ASCII,
  U+0085, U+00A0, U+1680, U+2000 to U+200A, U+2028, U+2029, U+202F, U+205F and U+3000.
  A string of white space only is a concatenation of such encodings.
\<close>

definition whiteSpace :: "(nat \<times> string) list" where
  "whiteSpace =
     [(0x09, [CHR 0x09]), (0x0A, [CHR 0x0A]), (0x0B, [CHR 0x0B]), (0x0C, [CHR 0x0C]),
      (0x0D, [CHR 0x0D]), (0x20, [CHR 0x20]),
      (0x85, [CHR 0xC2, CHR 0x85]), (0xA0, [CHR 0xC2, CHR 0xA0]),
      (0x1680, [CHR 0xE1, CHR 0x9A, CHR 0x80]),
      (0x2000, [CHR 0xE2, CHR 0x80, CHR 0x80]), (0x2001, [CHR 0xE2, CHR 0x80, CHR 0x81]),
      (0x2002, [CHR 0xE2, CHR 0x80, CHR 0x82]), (0x2003, [CHR 0xE2, CHR 0x80, CHR 0x83]),
      (0x2004, [CHR 0xE2, CHR 0x80, CHR 0x84]), (0x2005, [CHR 0xE2, CHR 0x80, CHR 0x85]),
      (0x2006, [CHR 0xE2, CHR 0x80, CHR 0x86]), (0x2007, [CHR 0xE2, CHR 0x80, CHR 0x87]),
      (0x2008, [CHR 0xE2, CHR 0x80, CHR 0x88]), (0x2009, [CHR 0xE2, CHR 0x80, CHR 0x89]),
      (0x200A, [CHR 0xE2, CHR 0x80, CHR 0x8A]),
      (0x2028, [CHR 0xE2, CHR 0x80, CHR 0xA8]), (0x2029, [CHR 0xE2, CHR 0x80, CHR 0xA9]),
      (0x202F, [CHR 0xE2, CHR 0x80, CHR 0xAF]), (0x205F, [CHR 0xE2, CHR 0x81, CHR 0x9F]),
      (0x3000, [CHR 0xE3, CHR 0x80, CHR 0x80])]"

definition whiteSpaceUTF8 :: "string list" where
  "whiteSpaceUTF8 = map snd whiteSpace"

section \<open>Sample requests and configurations\<close>

text \<open>
  Stand-ins for the case tables of Unicode. The samples are ASCII where case matters and
  never reach them.
\<close>

definition sampleUnicode :: Unicode where
  "sampleUnicode = \<lparr>toLowerUnicode = (\<lambda>s. s), equalFoldUnicode = (\<lambda>s t. False)\<rparr>"

text \<open>A fresh response, a request with nothing but method and path, and its context.\<close>

definition freshResponse :: Response where
  "freshResponse = \<lparr>statusCode = 0, RespHeader = [], ContentType = [], SetCookies = [], RespBody = Bytes []\<rparr>"

definition newRequest :: "string \<Rightarrow> string \<Rightarrow> Request" where
  "newRequest method path =
     \<lparr>Method = method, Path = path, RequestURI = path, Header = [], Cookies = [], QueryArgs = [],
      PostArgs = [], Body = []\<rparr>"

definition newCtx :: "Request \<Rightarrow> RequestCtx" where
  "newCtx r = \<lparr>Req = r, Resp = freshResponse, Warnings = []\<rparr>"

definition adminConfig :: "string \<Rightarrow> (string, nat) Config" where
  "adminConfig secret = \<lparr>AdminSecret = secret, AdminCookieName = ''bf_admin'', GetLoadedPlugins = []\<rparr>"

definition settingsHtml :: RequestCtx where
  "settingsHtml = newCtx ((newRequest ''GET'' ''/settings'')\<lparr>Header := [(''Accept'', ''text/html'')]\<rparr>)"

text \<open>
  Requests for \<^verbatim>\<open>/settings\<close> whose bearer header carries two white-space bytes, tabs
  or spaces, before \<^verbatim>\<open>Bearer s3cr3t\<close>.
\<close>

definition twoTabBearer :: RequestCtx where
  "twoTabBearer =
     newCtx ((newRequest ''GET'' ''/settings'')
       \<lparr>Header := [(''Authorization'', [CHR 0x09, CHR 0x09] @ ''Bearer s3cr3t'')]\<rparr>)"

definition twoSpaceBearer :: RequestCtx where
  "twoSpaceBearer =
     newCtx ((newRequest ''GET'' ''/settings'')\<lparr>Header := [(''Authorization'', ''  Bearer s3cr3t'')]\<rparr>)"

text \<open>The same with the no-break space U+00A0, two bytes in UTF-8, before \<^verbatim>\<open>Bearer\<close>.\<close>

definition nbspBearer :: RequestCtx where
  "nbspBearer =
     newCtx ((newRequest ''GET'' ''/settings'')
       \<lparr>Header := [(''Authorization'', [CHR 0xC2, CHR 0xA0] @ ''Bearer s3cr3t'')]\<rparr>)"

text \<open>
  A request whose bearer header, two tabs and \<^verbatim>\<open>Bearer tok\<close>, carries the token
  \<^verbatim>\<open>tok\<close>, for use under the secret \<^verbatim>\<open>r tok\<close>.
\<close>

definition twoTabTok :: RequestCtx where
  "twoTabTok =
     newCtx ((newRequest ''GET'' ''/settings'')
       \<lparr>Header := [(''Authorization'', [CHR 0x09, CHR 0x09] @ ''Bearer tok'')]\<rparr>)"

text \<open>
  A request for \<^verbatim>\<open>/settings\<close> from a browser with the bearer token \<^verbatim>\<open>wrong\<close>.
\<close>

definition wrongBearer :: RequestCtx where
  "wrongBearer =
     newCtx ((newRequest ''GET'' ''/settings'')
       \<lparr>Header := [(''Accept'', ''text/html''), (''Authorization'', ''Bearer wrong'')]\<rparr>)"

text \<open>A step that tags the response and goes on, and a step that refuses and stops.\<close>

definition tagStep :: "string \<Rightarrow> string \<Rightarrow> RequestCtx \<Rightarrow> RequestCtx \<times> bool" where
  "tagStep k v ctx = (SetRespHeader k v ctx, True)"

definition denyStep :: "RequestCtx \<Rightarrow> RequestCtx \<times> bool" where
  "denyStep ctx = (SetStatusCode 403 ctx, False)"

definition rootCtx :: RequestCtx where
  "rootCtx = newCtx (newRequest ''GET'' ''/'')"

text \<open>
  A codec for the samples: the rendering of a flat object of strings whose keys and values
  need no escaping, with the keys in the order of the list, and the reading of the two
  shortest JSON texts.
\<close>

fun renderEntries :: "(string \<times> string) list \<Rightarrow> string" where
  "renderEntries [] = []"
| "renderEntries [(k, v)] = [CHR 0x22] @ k @ [CHR 0x22] @ '':'' @ [CHR 0x22] @ v @ [CHR 0x22]"
| "renderEntries ((k, v) # kvs) =
     [CHR 0x22] @ k @ [CHR 0x22] @ '':'' @ [CHR 0x22] @ v @ [CHR 0x22] @ '','' @ renderEntries kvs"

definition sampleMarshal :: "(string, string) gomap \<Rightarrow> string + string" where
  "sampleMarshal m =
     (case m of None \<Rightarrow> Inr ''null'' | Some kvs \<Rightarrow> Inr (''{'' @ renderEntries kvs @ ''}''))"

definition sampleUnmarshal :: "string \<Rightarrow> string + (string, string) gomap" where
  "sampleUnmarshal b =
     (if b = ''{}'' then Inr (Some [])
      else if b = ''null'' then Inr None
      else Inl ''unexpected input'')"

definition sampleMime :: "string \<Rightarrow> string" where
  "sampleMime e = (if e = ''.html'' then ''text/html; charset=utf-8'' else [])"

definition sampleExternals :: "string Externals" where
  "sampleExternals =
     \<lparr>governancePluginName = ''governance'', jsonUnmarshal = sampleUnmarshal,
      jsonMarshal = sampleMarshal, mimeTypeByExtension = sampleMime\<rparr>"

text \<open>
  Plugins for the samples. The first six write nothing into the maps they are given and
  leave the state alone: one returns nil for both maps, two fail, one returns a body with
  a field, two replace the header map, one of them with names in lower case. The last two
  write into the maps they are given: one sets a header and then fails, one sets a field
  of the body and returns nil.
\<close>

definition nilPlugin :: "(string, nat) Plugin" where
  "nilPlugin =
     \<lparr>GetName = ''governance'',
      TransportInterceptor = (\<lambda>uri h b s. untouched h b s (Inr (None, None)))\<rparr>"

definition failingGovernance :: "(string, nat) Plugin" where
  "failingGovernance =
     \<lparr>GetName = ''governance'', TransportInterceptor = (\<lambda>uri h b s. untouched h b s (Inl ''boom''))\<rparr>"

definition failingAudit :: "(string, nat) Plugin" where
  "failingAudit =
     \<lparr>GetName = ''audit'', TransportInterceptor = (\<lambda>uri h b s. untouched h b s (Inl ''boom''))\<rparr>"

definition modelPlugin :: "(string, nat) Plugin" where
  "modelPlugin =
     \<lparr>GetName = ''governance'',
      TransportInterceptor =
        (\<lambda>uri h b s. untouched h b s (Inr (None, Some [(''model'', ''gpt-4o'')])))\<rparr>"

definition renamePlugin :: "(string, nat) Plugin" where
  "renamePlugin =
     \<lparr>GetName = ''rename'',
      TransportInterceptor = (\<lambda>uri h b s. untouched h b s (Inr (Some [(''X-New'', ''1'')], None)))\<rparr>"

definition lowerCasePlugin :: "(string, nat) Plugin" where
  "lowerCasePlugin =
     \<lparr>GetName = ''rename'',
      TransportInterceptor =
        (\<lambda>uri h b s. untouched h b s (Inr (Some [(''x-old'', ''2''), (''x-new'', ''1'')], None)))\<rparr>"

definition scribblingAudit :: "(string, nat) Plugin" where
  "scribblingAudit =
     \<lparr>GetName = ''audit'',
      TransportInterceptor =
        (\<lambda>uri h b s.
           \<lparr>headersLeft = AList.update ''X-Trace'' ''1'' (entries h), bodyLeft = entries b,
            stateLeft = s, returned = Inl ''boom''\<rparr>)\<rparr>"

definition inPlaceModel :: "(string, nat) Plugin" where
  "inPlaceModel =
     \<lparr>GetName = ''governance'',
      TransportInterceptor =
        (\<lambda>uri h b s.
           \<lparr>headersLeft = entries h, bodyLeft = AList.update ''model'' ''gpt-4o'' (entries b),
            stateLeft = s, returned = Inr (None, None)\<rparr>)\<rparr>"

definition pluginConfig :: "(string, nat) Plugin list \<Rightarrow> (string, nat) Config" where
  "pluginConfig ps = \<lparr>AdminSecret = [], AdminCookieName = ''bf_admin'', GetLoadedPlugins = ps\<rparr>"

definition xOldCtx :: RequestCtx where
  "xOldCtx = newCtx ((newRequest ''POST'' ''/v1/chat'')\<lparr>Header := [(''X-Old'', ''1'')]\<rparr>)"

text \<open>A bundle that holds the root index only, and a GET request for a path.\<close>

definition rootOnly :: "(string, nat) UIHandler" where
  "rootOnly = \<lparr>uiContent = [''ui/index.html'' \<mapsto> ''<html>root</html>''], config = None\<rparr>"

definition getCtx :: "string \<Rightarrow> RequestCtx" where
  "getCtx path = newCtx (newRequest ''GET'' path)"

text \<open>A handler configured with the secret \<^verbatim>\<open>s3cr3t\<close>, and a login POST with a wrong password.\<close>

definition securedHandler :: "(string, nat) UIHandler" where
  "securedHandler = \<lparr>uiContent = Map.empty, config = Some (adminConfig ''s3cr3t'')\<rparr>"

definition wrongPassword :: RequestCtx where
  "wrongPassword =
     newCtx ((newRequest ''POST'' ''/admin/login'')\<lparr>PostArgs := [(''password'', ''guess'')]\<rparr>)"

text \<open>The cookie that a successful login sets.\<close>

definition adminCookie :: "('v, 's) Config \<Rightarrow> Cookie" where
  "adminCookie cfg =
     \<lparr>Key = (if AdminCookieName cfg = [] then ''bf_admin'' else AdminCookieName cfg),
      Value = AdminSecret cfg, CookiePath = ''/'', HTTPOnly = True, Expire = None, MaxAge = 0\<rparr>"

section \<open>Auxiliary facts\<close>

lemmas eval_strings = HasPrefix_def HasSuffix_def TrimSuffix_def TrimSpace_def TrimRight.simps
  DecodeRune_def DecodeLastRune_def RuneStart_def continuation_def IsSpace_def RuneError_def
  ToLower_def lower_def EqualFold_def QueryEscape_def escapeByte_def unreserved_def upperhex_def
  Let_def

lemmas eval_ctx = newCtx_def newRequest_def freshResponse_def adminConfig_def Peek_def peekArg_def
  normalizeHeaderKey_def upper_def SetHeader_def DelHeader_def SetStatusCode_def SetRespHeader_def
  SetContentType_def SetBody_def SetCookie_def SendError_def StatusCode_def

lemma TrimSpace_Nil [simp]: "TrimSpace [] = []"
  by (simp add: TrimSpace_def TrimRight.simps)

lemma TrimLeft_length: "length (TrimLeft s) \<le> length s"
proof (induction s rule: TrimLeft.induct)
  case 1
  show ?case by simp
next
  case (2 c cs)
  obtain r width where d: "DecodeRune (c # cs) = (r, width)"
    by (cases "DecodeRune (c # cs)")
  show ?case
  proof (cases "IsSpace r")
    case True
    from 2 [OF d [symmetric] True] have "length (TrimLeft (drop (width - 1) cs)) \<le> length cs"
      by simp
    with True d show ?thesis by simp
  next
    case False
    with d show ?thesis by simp
  qed
qed

lemma TrimRight_length: "length (TrimRight s) \<le> length s"
proof (induction s rule: TrimRight.induct)
  case (1 s)
  show ?case
  proof (cases "s = []")
    case True
    then show ?thesis by (simp add: TrimRight.simps)
  next
    case False
    obtain r width where d: "DecodeLastRune s = (r, width)"
      by (cases "DecodeLastRune s")
    show ?thesis
    proof (cases "IsSpace r")
      case True
      from 1 [OF False d [symmetric] True]
      have "length (TrimRight (take (length s - width) s)) \<le> length s"
        by simp
      with False True d show ?thesis
        by (subst TrimRight.simps) simp
    next
      case False
      with \<open>s \<noteq> []\<close> d show ?thesis
        by (subst TrimRight.simps) simp
    qed
  qed
qed

lemma TrimSpace_length: "length (TrimSpace s) \<le> length s"
  using TrimRight_length [of "TrimLeft s"] TrimLeft_length [of s]
  by (simp add: TrimSpace_def)

text \<open>
  The slice that cuts the token in the bearer check is within the header value whenever
  the prefix test before it has passed on a trimmed value that is ASCII.
\<close>

lemma bearer_slice_in_range:
  assumes "HasPrefix (ToLower u (TrimSpace auth)) ''bearer ''" and "isASCII (TrimSpace auth)"
  shows "length ''Bearer '' \<le> length auth"
proof -
  from assms have "take (length ''bearer '') (map lower (TrimSpace auth)) = ''bearer ''"
    by (simp only: HasPrefix_def ToLower_def if_True)
  then have "length (take (length ''bearer '') (map lower (TrimSpace auth))) = length ''bearer ''"
    by (rule arg_cong)
  then have "7 \<le> length (TrimSpace auth)"
    by (simp add: min_def split: if_splits)
  with TrimSpace_length [of auth] show ?thesis by simp
qed

text \<open>White space at the head of a string is trimmed, whichever of the encodings it is.\<close>

lemma TrimLeft_whiteSpace:
  "w \<in> set whiteSpaceUTF8 \<Longrightarrow> TrimLeft (w @ rest) = TrimLeft rest"
  unfolding whiteSpaceUTF8_def whiteSpace_def
  by (auto simp: DecodeRune_def continuation_def IsSpace_def Let_def)

lemma TrimLeft_concat:
  "set ws \<subseteq> set whiteSpaceUTF8 \<Longrightarrow> TrimLeft (concat ws) = []"
  by (induction ws) (simp_all add: TrimLeft_whiteSpace)

lemma TrimSpace_blank:
  "set ws \<subseteq> set whiteSpaceUTF8 \<Longrightarrow> TrimSpace (concat ws) = []"
  by (simp add: TrimSpace_def TrimLeft_concat TrimRight.simps)

text \<open>The encodings of the table decode to the code points beside them, which are white space.\<close>

lemma whiteSpace_decodes:
  "list_all (\<lambda>(r, w). DecodeRune w = (r, length w) \<and> IsSpace r) whiteSpace"
  by (simp add: whiteSpace_def DecodeRune_def continuation_def IsSpace_def Let_def)

lemma Peek_SetHeader: "Peek (SetHeader k v h) k = v"
  by (simp add: Peek_def SetHeader_def update_conv')

lemma putCookie_mem: "c \<in> set (putCookie c cs)"
  by (induction cs) auto

lemma chainLoop_foldr:
  "n \<le> length ms \<Longrightarrow> chainLoop ms n h = foldr (\<lambda>m k. m k) (take n ms) h"
proof (induction n arbitrary: h)
  case 0
  then show ?case by simp
next
  case (Suc n)
  then have "take (Suc n) ms = take n ms @ [ms ! n]"
    by (simp add: take_Suc_conv_app_nth)
  with Suc show ?case by simp
qed

lemma ChainMiddlewares_foldr: "ChainMiddlewares h ms = foldr (\<lambda>m k. m k) ms h"
  by (simp add: ChainMiddlewares_def chainLoop_foldr)

lemma ChainMiddlewares_append:
  "ChainMiddlewares h (ms @ ms') = ChainMiddlewares (ChainMiddlewares h ms') ms"
  by (simp add: ChainMiddlewares_foldr)

lemma ChainMiddlewares_steps:
  "ChainMiddlewares H (map middlewareOf steps) ctx =
     (case runSteps steps ctx of (c, proceed) \<Rightarrow> if proceed then H c else c)"
  by (induction steps arbitrary: ctx)
     (auto simp: ChainMiddlewares_foldr middlewareOf_def split: prod.splits)

lemma runSteps_append:
  "runSteps (pre @ post) ctx =
     (case runSteps pre ctx of (c, proceed) \<Rightarrow> if proceed then runSteps post c else (c, False))"
  by (induction pre arbitrary: ctx) (auto split: prod.splits)

lemma runSteps_all:
  "runSteps steps ctx = (c, True) \<Longrightarrow> c = foldl (\<lambda>c step. fst (step c)) ctx steps"
  by (induction steps arbitrary: ctx) (auto split: prod.splits if_splits)

lemma Contains_single: "Contains s [c] = (c \<in> set s)"
  by (induction s) (auto simp: HasPrefix_def)

lemma sendFile_body:
  "RespBody (Resp (sendFile ext p d ctx)) = Bytes d \<and>
   statusCode (Resp (sendFile ext p d ctx)) = statusCode (Resp ctx)"
  by (simp add: sendFile_def Let_def SetBody_def SetRespHeader_def SetContentType_def)

lemma bundlePath_dashboard: "bundlePath ''/dashboard'' = ''ui/dashboard''"
  by (simp add: bundlePath_def Clean_def HasSuffix_def)

lemma bundlePath_logo: "bundlePath ''/logo.png'' = ''ui/logo.png''"
  by (simp add: bundlePath_def Clean_def HasSuffix_def)

lemma bundlePath_root: "bundlePath ''/'' = ''ui/index.html''"
  by (simp add: bundlePath_def Clean_def HasSuffix_def)

text \<open>Canonical header names: bringing a name into canonical form twice changes nothing more.\<close>

lemma upper_upper: "upper (upper c) = upper c"
  by (auto simp: upper_def split: option.splits if_splits)

lemma lower_lower: "lower (lower c) = lower c"
  by (auto simp: lower_def split: option.splits if_splits)

lemma lower_hyphen: "(lower c = CHR ''-'') = (c = CHR ''-'')"
  by (auto simp: lower_def split: option.splits if_splits)

lemma normalizeRest_Cons:
  "normalizeRest (c # cs) =
     (if c = CHR ''-'' then (case cs of [] \<Rightarrow> [c] | d # ds \<Rightarrow> c # upper d # normalizeRest ds)
      else lower c # normalizeRest cs)"
  by (cases cs) simp_all

lemma normalizeRest_idem: "normalizeRest (normalizeRest cs) = normalizeRest cs"
proof (induction cs rule: normalizeRest.induct)
  case 1
  show ?case by simp
next
  case (2 c)
  show ?case by (simp add: lower_lower lower_hyphen)
next
  case (3 c d ds)
  show ?case
  proof (cases "c = CHR ''-''")
    case True
    with 3 show ?thesis by (simp add: upper_upper)
  next
    case False
    with 3 have ih: "normalizeRest (normalizeRest (d # ds)) = normalizeRest (d # ds)"
      by simp
    have "normalizeRest (lower c # normalizeRest (d # ds))
            = lower (lower c) # normalizeRest (normalizeRest (d # ds))"
      using False by (subst normalizeRest_Cons) (simp add: lower_hyphen)
    with False ih show ?thesis by (simp add: lower_lower)
  qed
qed

lemma normalizeHeaderKey_idem: "normalizeHeaderKey (normalizeHeaderKey k) = normalizeHeaderKey k"
  by (cases k) (simp_all add: normalizeHeaderKey_def upper_upper normalizeRest_idem)

text \<open>The interceptor middleware is its step followed by the next stage.\<close>

lemma TransportInterceptorMiddleware_step:
  "TransportInterceptorMiddleware ext cfg state next ctx
     = middlewareOf (interceptStep ext cfg state) next ctx"
  by (simp add: TransportInterceptorMiddleware_def interceptStep_def middlewareOf_def Let_def
      split: sum.splits prod.splits)

text \<open>Reconciling the final header map onto the request, as \<^verbatim>\<open>Peek\<close> sees it.\<close>

lemma canonical_Cons: "canonical ((k, v) # kvs) = (normalizeHeaderKey k, v) # canonical kvs"
  by (simp add: canonical_def)

lemma setModified_map_of:
  "distinct (map fst (canonical kvs)) \<Longrightarrow>
   map_of (setModified kvs h) x =
     (case map_of (canonical kvs) x of Some v \<Rightarrow> Some v | None \<Rightarrow> map_of h x)"
proof (induction kvs arbitrary: h)
  case Nil
  then show ?case by (simp add: canonical_def)
next
  case (Cons kv kvs)
  obtain k' v where kv: "kv = (k', v)" by (cases kv)
  from Cons.prems have d: "distinct (map fst (canonical kvs))"
    and n: "map_of (canonical kvs) (normalizeHeaderKey k') = None"
    by (simp_all add: kv canonical_Cons map_of_eq_None_iff)
  from Cons.IH [OF d, of "SetHeader k' v h"] n show ?case
    by (auto simp: kv canonical_Cons SetHeader_def update_conv' split: option.splits)
qed

lemma removeDeleted_map_of:
  "map_of (removeDeleted names hs h) x =
     (if \<exists>n\<in>set names. \<not> exists hs n \<and> normalizeHeaderKey n = x then None else map_of h x)"
  by (induction names arbitrary: h) (auto simp: DelHeader_def delete_conv')

lemma parseHeaders_names: "snd (parseHeaders hdr (m, ns)) = ns @ map fst hdr"
  by (induction hdr arbitrary: m ns) auto

lemma parseHeaders_distinct:
  "distinct (map fst m) \<Longrightarrow> distinct (map fst (fst (parseHeaders hdr (m, ns))))"
  by (induction hdr arbitrary: m ns) (auto simp: distinct_update)

lemma parseHeaders_last_wins:
  "map_of (fst (parseHeaders hdr (m, ns))) = map_of m ++ map_of (rev hdr)"
  by (induction hdr arbitrary: m ns) (auto simp: update_conv' map_of_append)

lemma reconcile_map_of:
  assumes "distinct (map fst (canonical fh))"
  shows "map_of (setModified fh (removeDeleted (map fst hdr) (Some fh) hdr)) (normalizeHeaderKey k)
           = map_of (canonical fh) (normalizeHeaderKey k)"
proof (cases "map_of (canonical fh) (normalizeHeaderKey k)")
  case None
  have "map_of (removeDeleted (map fst hdr) (Some fh) hdr) (normalizeHeaderKey k) = None"
  proof (cases "map_of hdr (normalizeHeaderKey k)")
    case None
    then show ?thesis by (simp add: removeDeleted_map_of)
  next
    case (Some v)
    then have mem: "normalizeHeaderKey k \<in> set (map fst hdr)"
      by (metis map_of_eq_None_iff option.distinct(1) set_map)
    have "\<not> exists (Some fh) (normalizeHeaderKey k)"
    proof
      assume "exists (Some fh) (normalizeHeaderKey k)"
      then obtain v' where "(normalizeHeaderKey k, v') \<in> set fh"
        by (auto simp: exists_def entries_def dest: map_of_SomeD)
      then have "(normalizeHeaderKey (normalizeHeaderKey k), v') \<in> set (canonical fh)"
        by (force simp: canonical_def)
      then have "normalizeHeaderKey k \<in> fst ` set (canonical fh)"
        by (force simp: normalizeHeaderKey_idem)
      with None show False
        by (simp add: map_of_eq_None_iff)
    qed
    with mem have "\<exists>n\<in>set (map fst hdr). \<not> exists (Some fh) n \<and> normalizeHeaderKey n = normalizeHeaderKey k"
      using normalizeHeaderKey_idem by blast
    then show ?thesis by (simp only: removeDeleted_map_of if_True)
  qed
  with None show ?thesis
    using assms by (simp add: setModified_map_of)
next
  case (Some v)
  then show ?thesis
    using assms by (simp add: setModified_map_of)
qed





lemma callPlugins_headers_Some:
  "h \<noteq> None \<Longrightarrow> fst (callPlugins uri ps (h, b, w, s)) \<noteq> None"
proof (induction ps arbitrary: h b w s)
  case Nil
  then show ?case by simp
next
  case (Cons p ps)
  let ?out = "TransportInterceptor p uri h b s"
  have left: "inPlace h (headersLeft ?out) \<noteq> None"
    using Cons.prems by (auto simp: inPlace_def)
  show ?case
  proof (cases "returned ?out")
    case (Inl err)
    from Cons.IH [OF left] show ?thesis by (simp add: Inl Let_def)
  next
    case (Inr r)
    obtain mh mb where r: "r = (mh, mb)" by (cases r)
    have "(if mh \<noteq> None then mh else inPlace h (headersLeft ?out)) \<noteq> None"
      using left by simp
    from Cons.IH [OF this] show ?thesis
      by (simp add: Inr r Let_def)
  qed
qed

lemma callPlugins_body_kept:
  "\<forall>p\<in>set ps. \<forall>h s. bodyLeft (TransportInterceptor p uri h (Some []) s) = [] \<and>
      (case returned (TransportInterceptor p uri h (Some []) s) of
         Inl err \<Rightarrow> True | Inr (mh, mb) \<Rightarrow> mb = None) \<Longrightarrow>
   fst (snd (callPlugins uri ps (h, Some [], w, s))) = Some []"
proof (induction ps arbitrary: h w s)
  case Nil
  then show ?case by simp
next
  case (Cons p ps)
  let ?out = "TransportInterceptor p uri h (Some []) s"
  from Cons.prems have rest: "\<forall>p\<in>set ps. \<forall>h s. bodyLeft (TransportInterceptor p uri h (Some []) s) = [] \<and>
      (case returned (TransportInterceptor p uri h (Some []) s) of
         Inl err \<Rightarrow> True | Inr (mh, mb) \<Rightarrow> mb = None)"
    by simp
  from Cons.prems have here: "bodyLeft ?out = []"
    "case returned ?out of Inl err \<Rightarrow> True | Inr (mh, mb) \<Rightarrow> mb = None"
    by simp_all
  have left: "inPlace (Some []) (bodyLeft ?out) = Some []"
    using here(1) by (simp add: inPlace_def)
  show ?case
  proof (cases "returned ?out")
    case (Inl err)
    then show ?thesis using Cons.IH [OF rest] left by (simp add: Let_def)
  next
    case (Inr r)
    obtain mh mb where r: "r = (mh, mb)" by (cases r)
    with here(2) Inr have "mb = None" by simp
    then show ?thesis using Cons.IH [OF rest] left by (simp add: Inr r Let_def)
  qed
qed

lemma interceptStep_forward:
  assumes "GetLoadedPlugins cfg \<noteq> []"
    and "hasGovernance (governancePluginName ext) (GetLoadedPlugins cfg)"
    and "(if length (Body (Req ctx)) > 0 then jsonUnmarshal ext (Body (Req ctx)) else Inr (Some []))
           = Inr b0"
    and "callPlugins (RequestURI (Req ctx)) (GetLoadedPlugins cfg)
           (Some (fst (parseHeaders (Header (Req ctx)) ([], []))), b0, Warnings ctx, state)
           = (fh, fb, fw, fs)"
  shows "interceptStep ext cfg state ctx =
     (case jsonMarshal ext fb of
        Inl err \<Rightarrow>
          (SendError (ctx\<lparr>Warnings := fw\<rparr>) StatusInternalServerError
             (''TransportInterceptor: Failed to marshal request body: '' @ err), False)
      | Inr updatedBody \<Rightarrow>
          (ctx\<lparr>Req := (Req ctx)
                 \<lparr>Body := updatedBody,
                  Header := setModified (entries fh)
                    (removeDeleted (map fst (Header (Req ctx))) fh (Header (Req ctx)))\<rparr>,
               Warnings := fw\<rparr>, True))"
proof -
  obtain hs ns where ph: "parseHeaders (Header (Req ctx)) ([], []) = (hs, ns)"
    by (cases "parseHeaders (Header (Req ctx)) ([], [])")
  have ns: "ns = map fst (Header (Req ctx))"
    using parseHeaders_names [of "Header (Req ctx)" "[]" "[]"] by (simp add: ph)
  show ?thesis
    using assms by (simp add: interceptStep_def Let_def ph ns split: sum.splits)
qed

lemmas eval_plugins = TransportInterceptorMiddleware_def interceptStep_def pluginConfig_def
  sampleExternals_def sampleMarshal_def sampleUnmarshal_def nilPlugin_def failingGovernance_def
  failingAudit_def modelPlugin_def renamePlugin_def scribblingAudit_def inPlaceModel_def
  untouched_def inPlace_def xOldCtx_def exists_def entries_def pluginErrorMessage_def
  Warn_def StatusInternalServerError_def selfManaged_def canonical_def lower_def Let_def

section \<open>The admin gate: verified claims\<close>

text \<open>
  Claim C8. If the admin secret of the configuration is the empty string, the admin gate
  hands every request to the next stage as it came: it checks no credential and produces
  neither a 401 nor a redirect.
\<close>

theorem AdminAuth_empty_secret_passes:
  "AdminSecret cfg = [] \<Longrightarrow> AdminAuthMiddleware u cfg next ctx = next ctx"
  by (simp add: AdminAuthMiddleware_def)

theorem AdminAuth_empty_secret_passes_witness:
  "AdminSecret (adminConfig []) = [] \<and>
   AdminAuthMiddleware sampleUnicode (adminConfig []) (SetStatusCode 204)
       (newCtx (newRequest ''GET'' ''/settings''))
     = SetStatusCode 204 (newCtx (newRequest ''GET'' ''/settings''))"
  using AdminAuth_empty_secret_passes [of "adminConfig []" sampleUnicode "SetStatusCode 204"
      "newCtx (newRequest ''GET'' ''/settings'')"]
  by (simp add: adminConfig_def)

text \<open>
  Claim C9. An admin secret that is not empty but consists of white space only, any of
  the white-space code points of Unicode in UTF-8, counts as unconfigured: the admin gate
  hands every request to the next stage without a credential check, and every login POST
  is answered with 503.
\<close>

theorem blank_secret_unconfigured:
  assumes "AdminSecret cfg = concat ws" and "set ws \<subseteq> set whiteSpaceUTF8"
    and "AdminSecret cfg \<noteq> []"
  shows "AdminAuthMiddleware u cfg next ctx = next ctx \<and>
         (config h = Some cfg \<longrightarrow>
            loginSubmit h ctx' = SendError ctx' StatusServiceUnavailable ''admin auth not configured'' \<and>
            StatusCode (Resp (loginSubmit h ctx')) = 503)"
  using assms
  by (simp add: AdminAuthMiddleware_def loginSubmit_def TrimSpace_blank SendError_def StatusCode_def
      StatusServiceUnavailable_def)

theorem blank_secret_unconfigured_witness:
  "AdminSecret (adminConfig ([CHR 0xC2, CHR 0xA0] @ '' '' @ [CHR 0xE2, CHR 0x80, CHR 0x83, CHR 0x09]))
     = concat [[CHR 0xC2, CHR 0xA0], '' '', [CHR 0xE2, CHR 0x80, CHR 0x83], [CHR 0x09]] \<and>
   set [[CHR 0xC2, CHR 0xA0], '' '', [CHR 0xE2, CHR 0x80, CHR 0x83], [CHR 0x09]] \<subseteq> set whiteSpaceUTF8 \<and>
   AdminSecret (adminConfig ([CHR 0xC2, CHR 0xA0] @ '' '' @ [CHR 0xE2, CHR 0x80, CHR 0x83, CHR 0x09])) \<noteq> [] \<and>
   AdminAuthMiddleware sampleUnicode
       (adminConfig ([CHR 0xC2, CHR 0xA0] @ '' '' @ [CHR 0xE2, CHR 0x80, CHR 0x83, CHR 0x09]))
       (SetStatusCode 204) (newCtx (newRequest ''GET'' ''/settings''))
     = SetStatusCode 204 (newCtx (newRequest ''GET'' ''/settings'')) \<and>
   StatusCode (Resp (loginSubmit
      \<lparr>uiContent = Map.empty,
       config = Some (adminConfig ([CHR 0xC2, CHR 0xA0] @ '' '' @ [CHR 0xE2, CHR 0x80, CHR 0x83, CHR 0x09]))\<rparr>
      (newCtx (newRequest ''POST'' ''/admin/login'')))) = 503"
proof -
  let ?s = "[CHR 0xC2, CHR 0xA0] @ '' '' @ [CHR 0xE2, CHR 0x80, CHR 0x83, CHR 0x09]"
  let ?ws = "[[CHR 0xC2, CHR 0xA0], '' '', [CHR 0xE2, CHR 0x80, CHR 0x83], [CHR 0x09]]"
  let ?h = "\<lparr>uiContent = Map.empty, config = Some (adminConfig ?s)\<rparr>"
  have 1: "AdminSecret (adminConfig ?s) = concat ?ws"
    by (simp add: adminConfig_def)
  have 2: "set ?ws \<subseteq> set whiteSpaceUTF8"
    by (simp add: whiteSpaceUTF8_def whiteSpace_def)
  have 3: "AdminSecret (adminConfig ?s) \<noteq> []"
    by (simp add: adminConfig_def)
  have 4: "config ?h = Some (adminConfig ?s)"
    by simp
  from blank_secret_unconfigured [OF 1 2 3, of sampleUnicode "SetStatusCode 204"
      "newCtx (newRequest ''GET'' ''/settings'')" ?h "newCtx (newRequest ''POST'' ''/admin/login'')"]
    1 2 3 4
  show ?thesis by blast
qed

text \<open>
  The two ways to cut the token from a bearer header agree on a header value that has no
  white space around it, on the empty one among them.
\<close>

lemma token_cut_agrees:
  "TrimSpace auth = auth \<Longrightarrow>
   TrimSpace (drop (length ''Bearer '') auth) = TrimSpace (drop (length ''bearer '') (TrimSpace auth))"
  by simp

text \<open>
  Claim C4, as amended. For a request that is not public, under an admin secret that is
  not blank (not empty once trimmed), whose \<^verbatim>\<open>Authorization\<close> value gives the same
  token whether the prefix is cut from the value as it came or from the trimmed value,
  when neither the bearer token nor the cookie matches the secret: if \<^verbatim>\<open>Accept\<close>
  contains \<^verbatim>\<open>application/json\<close> or \<^verbatim>\<open>X-Requested-With\<close> equals
  \<^verbatim>\<open>XMLHttpRequest\<close>, both regardless of case, or the path starts with \<^verbatim>\<open>/api/\<close>
  or with \<^verbatim>\<open>/v1/\<close>, the response is the structured 401 error; otherwise it is a 302
  redirect to \<^verbatim>\<open>/admin/login?next=\<close> followed by the query-escaped request path. The
  next stage is not invoked.
\<close>

theorem AdminAuth_unauthorized_shape:
  assumes "TrimSpace (AdminSecret cfg) \<noteq> []"
    and "\<not> isPublicPath (Method (Req ctx)) (Path (Req ctx))"
    and "TrimSpace (drop (length ''Bearer '') (Peek (Header (Req ctx)) ''Authorization''))
           = TrimSpace (drop (length ''bearer '') (TrimSpace (Peek (Header (Req ctx)) ''Authorization'')))"
    and "\<not> bearerTokenMatches u (Peek (Header (Req ctx)) ''Authorization'') (AdminSecret cfg)"
    and "peekArg (Cookies (Req ctx)) (AdminCookieName cfg) \<noteq> AdminSecret cfg"
  shows "AdminAuthMiddleware u cfg next ctx =
     (if Contains (ToLower u (Peek (Header (Req ctx)) ''Accept'')) ''application/json'' \<or>
         EqualFold u (Peek (Header (Req ctx)) ''X-Requested-With'') ''XMLHttpRequest'' \<or>
         HasPrefix (Path (Req ctx)) ''/api/'' \<or> HasPrefix (Path (Req ctx)) ''/v1/''
      then SendError ctx 401 ''admin authentication required''
      else ctx\<lparr>Resp := (Resp ctx)
              \<lparr>statusCode := 302,
               RespHeader := SetHeader ''Location''
                 (''/admin/login?next='' @ QueryEscape (Path (Req ctx))) (RespHeader (Resp ctx))\<rparr>\<rparr>)"
proof -
  have "\<not> bearerMatches u (Peek (Header (Req ctx)) ''Authorization'') (AdminSecret cfg)"
    using assms(3) assms(4) by (auto simp: bearerMatches_def bearerTokenMatches_def)
  moreover have "\<not> cookieMatches (peekArg (Cookies (Req ctx)) (AdminCookieName cfg)) (AdminSecret cfg)"
    using assms(5) by (simp add: cookieMatches_def)
  ultimately show ?thesis
    using assms(1) assms(2)
    by (auto simp: AdminAuthMiddleware_def wantsJSON_def StatusUnauthorized_def StatusFound_def
        SetStatusCode_def SetRespHeader_def Let_def)
qed

theorem AdminAuth_unauthorized_shape_witness:
  "TrimSpace (AdminSecret (adminConfig ''s3cr3t'')) \<noteq> [] \<and>
   \<not> isPublicPath (Method (Req wrongBearer)) (Path (Req wrongBearer)) \<and>
   TrimSpace (drop (length ''Bearer '') (Peek (Header (Req wrongBearer)) ''Authorization''))
     = TrimSpace (drop (length ''bearer '') (TrimSpace (Peek (Header (Req wrongBearer)) ''Authorization''))) \<and>
   \<not> bearerTokenMatches sampleUnicode (Peek (Header (Req wrongBearer)) ''Authorization'')
        (AdminSecret (adminConfig ''s3cr3t'')) \<and>
   peekArg (Cookies (Req wrongBearer)) (AdminCookieName (adminConfig ''s3cr3t''))
     \<noteq> AdminSecret (adminConfig ''s3cr3t'') \<and>
   StatusCode (Resp (AdminAuthMiddleware sampleUnicode (adminConfig ''s3cr3t'') (SetStatusCode 204)
     wrongBearer)) = 302 \<and>
   Peek (RespHeader (Resp (AdminAuthMiddleware sampleUnicode (adminConfig ''s3cr3t'') (SetStatusCode 204)
     wrongBearer))) ''Location'' = ''/admin/login?next=%2Fsettings''"
proof -
  have 1: "TrimSpace (AdminSecret (adminConfig ''s3cr3t'')) \<noteq> []"
    by (simp add: eval_strings eval_ctx)
  have 2: "\<not> isPublicPath (Method (Req wrongBearer)) (Path (Req wrongBearer))"
    by (simp add: wrongBearer_def isPublicPath_def MethodGet_def MethodPost_def eval_strings eval_ctx)
  have 3: "TrimSpace (drop (length ''Bearer '') (Peek (Header (Req wrongBearer)) ''Authorization''))
     = TrimSpace (drop (length ''bearer '') (TrimSpace (Peek (Header (Req wrongBearer)) ''Authorization'')))"
    by (simp add: wrongBearer_def eval_strings eval_ctx)
  have 4: "\<not> bearerTokenMatches sampleUnicode (Peek (Header (Req wrongBearer)) ''Authorization'')
        (AdminSecret (adminConfig ''s3cr3t''))"
    by (simp add: wrongBearer_def bearerTokenMatches_def eval_strings eval_ctx)
  have 5: "peekArg (Cookies (Req wrongBearer)) (AdminCookieName (adminConfig ''s3cr3t''))
     \<noteq> AdminSecret (adminConfig ''s3cr3t'')"
    by (simp add: wrongBearer_def eval_strings eval_ctx)
  show ?thesis
    using 1 2 3 4 5 AdminAuth_unauthorized_shape [OF 1 2 3 4 5, of "SetStatusCode 204"]
    by (simp add: wrongBearer_def eval_strings eval_ctx)
qed

text \<open>
  The claim as it was stated asks for a non-empty secret only. Under the secret of one
  space, or of one no-break space, a request without credentials for \<^verbatim>\<open>/settings\<close>
  reaches the next stage, and the response is neither a 401 nor a 302. (The amended
  statement also leaves aside the header values of claim C2, from which the gate cuts a
  token other than the one after the trimmed prefix: under the secret \<^verbatim>\<open>r tok\<close> the
  header of two tabs and \<^verbatim>\<open>Bearer tok\<close>, whose bearer token \<^verbatim>\<open>tok\<close> is not the
  secret, reaches the next stage as well.)
\<close>

theorem AdminAuth_blank_secret_counterexample:
  "AdminSecret (adminConfig '' '') \<noteq> [] \<and>
   \<not> isPublicPath (Method (Req settingsHtml)) (Path (Req settingsHtml)) \<and>
   \<not> bearerTokenMatches sampleUnicode (Peek (Header (Req settingsHtml)) ''Authorization'')
        (AdminSecret (adminConfig '' '')) \<and>
   peekArg (Cookies (Req settingsHtml)) (AdminCookieName (adminConfig '' '')) \<noteq> AdminSecret (adminConfig '' '') \<and>
   AdminAuthMiddleware sampleUnicode (adminConfig '' '') (SetStatusCode 204) settingsHtml
     = SetStatusCode 204 settingsHtml \<and>
   StatusCode (Resp (AdminAuthMiddleware sampleUnicode (adminConfig '' '') (SetStatusCode 204) settingsHtml))
     \<noteq> 401 \<and>
   StatusCode (Resp (AdminAuthMiddleware sampleUnicode (adminConfig '' '') (SetStatusCode 204) settingsHtml))
     \<noteq> 302 \<and>
   AdminSecret (adminConfig [CHR 0xC2, CHR 0xA0]) \<noteq> [] \<and>
   AdminAuthMiddleware sampleUnicode (adminConfig [CHR 0xC2, CHR 0xA0]) (SetStatusCode 204) settingsHtml
     = SetStatusCode 204 settingsHtml \<and>
   AdminSecret (adminConfig ''r tok'') \<noteq> [] \<and>
   \<not> isPublicPath (Method (Req twoTabTok)) (Path (Req twoTabTok)) \<and>
   \<not> bearerTokenMatches sampleUnicode (Peek (Header (Req twoTabTok)) ''Authorization'')
        (AdminSecret (adminConfig ''r tok'')) \<and>
   peekArg (Cookies (Req twoTabTok)) (AdminCookieName (adminConfig ''r tok''))
     \<noteq> AdminSecret (adminConfig ''r tok'') \<and>
   AdminAuthMiddleware sampleUnicode (adminConfig ''r tok'') (SetStatusCode 204) twoTabTok
     = SetStatusCode 204 twoTabTok"
  by (simp add: AdminAuthMiddleware_def settingsHtml_def twoTabTok_def isPublicPath_def
      bearerMatches_def bearerTokenMatches_def cookieMatches_def
      MethodGet_def MethodPost_def eval_strings eval_ctx)

text \<open>
  Claim C2, at inputs where the code departs from it. Under the secret \<^verbatim>\<open>s3cr3t\<close>,
  a header value of two tabs, of two spaces, or of a no-break space (U+00A0, two bytes),
  and \<^verbatim>\<open>Bearer s3cr3t\<close> has, once trimmed, the prefix and the token that the claim asks
  for, and the path \<^verbatim>\<open>/settings\<close> is not public; yet the gate does not invoke the next
  stage and redirects to the login page, whatever the case tables of Unicode. The token
  is cut from the untrimmed header value, here \<^verbatim>\<open>r s3cr3t\<close>.
\<close>

theorem AdminAuth_bearer_leading_whitespace_rejected:
  "HasPrefix (ToLower u (TrimSpace (Peek (Header (Req twoTabBearer)) ''Authorization'')))
     ''bearer '' \<and>
   TrimSpace (drop (length ''bearer '') (TrimSpace (Peek (Header (Req twoTabBearer)) ''Authorization'')))
     = AdminSecret (adminConfig ''s3cr3t'') \<and>
   AdminSecret (adminConfig ''s3cr3t'') \<noteq> [] \<and>
   \<not> isPublicPath (Method (Req twoTabBearer)) (Path (Req twoTabBearer)) \<and>
   AdminAuthMiddleware u (adminConfig ''s3cr3t'') (SetStatusCode 204) twoTabBearer
     \<noteq> SetStatusCode 204 twoTabBearer \<and>
   StatusCode (Resp (AdminAuthMiddleware u (adminConfig ''s3cr3t'') (SetStatusCode 204)
     twoTabBearer)) = 302 \<and>
   Peek (RespHeader (Resp (AdminAuthMiddleware u (adminConfig ''s3cr3t'') (SetStatusCode 204)
     twoTabBearer))) ''Location'' = ''/admin/login?next=%2Fsettings'' \<and>
   HasPrefix (ToLower u (TrimSpace (Peek (Header (Req twoSpaceBearer)) ''Authorization'')))
     ''bearer '' \<and>
   TrimSpace (drop (length ''bearer '') (TrimSpace (Peek (Header (Req twoSpaceBearer)) ''Authorization'')))
     = AdminSecret (adminConfig ''s3cr3t'') \<and>
   StatusCode (Resp (AdminAuthMiddleware u (adminConfig ''s3cr3t'') (SetStatusCode 204)
     twoSpaceBearer)) = 302 \<and>
   HasPrefix (ToLower u (TrimSpace (Peek (Header (Req nbspBearer)) ''Authorization'')))
     ''bearer '' \<and>
   TrimSpace (drop (length ''bearer '') (TrimSpace (Peek (Header (Req nbspBearer)) ''Authorization'')))
     = AdminSecret (adminConfig ''s3cr3t'') \<and>
   StatusCode (Resp (AdminAuthMiddleware u (adminConfig ''s3cr3t'') (SetStatusCode 204)
     nbspBearer)) = 302"
  by (simp add: AdminAuthMiddleware_def twoTabBearer_def twoSpaceBearer_def nbspBearer_def
      isPublicPath_def bearerMatches_def cookieMatches_def wantsJSON_def MethodGet_def MethodPost_def
      StatusFound_def eval_strings eval_ctx)

text \<open>
  With no white space, or a single white-space byte, before \<^verbatim>\<open>Bearer\<close> the same
  token is accepted and the next stage runs.
\<close>

lemma AdminAuth_bearer_plain_accepted:
  "AdminAuthMiddleware u (adminConfig ''s3cr3t'') (SetStatusCode 204)
     (newCtx ((newRequest ''GET'' ''/settings'')\<lparr>Header := [(''Authorization'', ''Bearer s3cr3t'')]\<rparr>))
     = SetStatusCode 204
         (newCtx ((newRequest ''GET'' ''/settings'')\<lparr>Header := [(''Authorization'', ''Bearer s3cr3t'')]\<rparr>)) \<and>
   AdminAuthMiddleware u (adminConfig ''s3cr3t'') (SetStatusCode 204)
     (newCtx ((newRequest ''GET'' ''/settings'')\<lparr>Header := [(''Authorization'', '' bearer s3cr3t '')]\<rparr>))
     = SetStatusCode 204
         (newCtx ((newRequest ''GET'' ''/settings'')\<lparr>Header := [(''Authorization'', '' bearer s3cr3t '')]\<rparr>))"
  by (simp add: AdminAuthMiddleware_def isPublicPath_def bearerMatches_def MethodGet_def MethodPost_def
      eval_strings eval_ctx)

section \<open>The login flow: verified claims\<close>

text \<open>
  What a login POST is answered with, branch by branch: 503 when the admin secret is
  unconfigured (no configuration, or a blank secret); else 400 when the submitted
  password is empty; else, when the password differs from the secret, 401 with the page
  of the invalid password and no cookie; else the cookie named by the configuration
  (\<^verbatim>\<open>bf_admin\<close> by default) with the secret as its value, path \<^verbatim>\<open>/\<close>, HTTP-only and
  without expiry or max-age, and a 302 redirect to the submitted \<^verbatim>\<open>next\<close>, or to
  \<^verbatim>\<open>/\<close> when that is empty or contains \<^verbatim>\<open>://\<close>.
\<close>

lemma loginSubmit_outcomes:
  "(config h = None \<or> (\<exists>cfg. config h = Some cfg \<and> TrimSpace (AdminSecret cfg) = []) \<longrightarrow>
      StatusCode (Resp (loginSubmit h ctx)) = 503 \<and>
      RespBody (Resp (loginSubmit h ctx)) = ErrorBody 503 ''admin auth not configured'') \<and>
   (\<forall>cfg. config h = Some cfg \<and> TrimSpace (AdminSecret cfg) \<noteq> [] \<longrightarrow>
      (let password = peekArg (PostArgs (Req ctx)) ''password'';
           nxt = peekArg (PostArgs (Req ctx)) ''next'';
           r = Resp (loginSubmit h ctx)
       in if password = [] then
            StatusCode r = 400 \<and> RespBody r = ErrorBody 400 ''password is required''
          else if password \<noteq> AdminSecret cfg then
            StatusCode r = 401 \<and> ContentType r = ''text/html; charset=utf-8'' \<and>
            RespBody r = Bytes invalidPasswordPage \<and> SetCookies r = SetCookies (Resp ctx)
          else
            StatusCode r = 302 \<and>
            Peek (RespHeader r) ''Location'' = (if nxt = [] \<or> Contains nxt ''://'' then ''/'' else nxt) \<and>
            adminCookie cfg \<in> set (SetCookies r)))"
  by (auto simp: loginSubmit_def Let_def SendError_def StatusCode_def SetStatusCode_def
      SetContentType_def SetBody_def SetCookie_def SetRespHeader_def Peek_SetHeader putCookie_mem
      adminCookie_def zeroCookie_def
      StatusServiceUnavailable_def StatusBadRequest_def StatusUnauthorized_def StatusFound_def)

text \<open>
  Claim C7, at an input where the code departs from it. The claim has a wrong password
  answered with 401 and the form rendered again. Under the secret \<^verbatim>\<open>s3cr3t\<close>, the
  password \<^verbatim>\<open>guess\<close> is answered with 401 and the page of the invalid password: it
  holds neither a form nor an input field, and it is not the page that \<^verbatim>\<open>loginPage\<close>
  renders for the same request, which holds the form.
\<close>

theorem loginSubmit_wrong_password_no_form:
  \<open>peekArg (PostArgs (Req wrongPassword)) ''password'' \<noteq> [] \<and>
   Some (peekArg (PostArgs (Req wrongPassword)) ''password'') \<noteq> map_option AdminSecret (config securedHandler) \<and>
   StatusCode (Resp (loginSubmit securedHandler wrongPassword)) = 401 \<and>
   RespBody (Resp (loginSubmit securedHandler wrongPassword))
     = Bytes ''<html><body><p>Invalid password</p><a href="/admin/login">Try again</a></body></html>'' \<and>
   \<not> Contains ''<html><body><p>Invalid password</p><a href="/admin/login">Try again</a></body></html>''
         ''<form'' \<and>
   \<not> Contains ''<html><body><p>Invalid password</p><a href="/admin/login">Try again</a></body></html>''
         ''<input'' \<and>
   RespBody (Resp (loginPage securedHandler wrongPassword)) = Bytes (loginForm ''/'') \<and>
   Contains (loginForm ''/'') ''<form'' \<and>
   RespBody (Resp (loginSubmit securedHandler wrongPassword))
     \<noteq> RespBody (Resp (loginPage securedHandler wrongPassword))\<close>
  by (simp add: loginSubmit_def loginPage_def loginForm_def securedHandler_def wrongPassword_def
      invalidPasswordPage_def StatusUnauthorized_def StatusOK_def eval_strings eval_ctx)

section \<open>Chaining: verified claims\<close>

text \<open>
  Claim C5. For a terminal handler and a list of middlewares, \<^verbatim>\<open>ChainMiddlewares\<close>
  is the first middleware applied to the chain of the rest, down to the handler itself
  for the empty list; the last middleware is the one wrapped around the handler first.
  A middleware that does not use its next stage makes the chain independent of every
  later middleware and of the handler. At run time, for middlewares in step form: the
  steps run in list order from the first; when a step does not go on, the context it
  leaves is the result, whatever the later steps and the handler are; when every step
  goes on, the handler runs on the context that the steps produced one after the other.
\<close>

theorem ChainMiddlewares_order:
  "ChainMiddlewares H [] = H \<and>
   ChainMiddlewares H [m1, m2, m3] = m1 (m2 (m3 H)) \<and>
   ChainMiddlewares H all = foldr (\<lambda>m chained. m chained) all H \<and>
   ChainMiddlewares H (m # ms) = m (ChainMiddlewares H ms) \<and>
   ChainMiddlewares H (ms @ [m]) = ChainMiddlewares (m H) ms \<and>
   ((\<forall>k k'. mi k = mi k') \<longrightarrow>
      ChainMiddlewares H (pre @ mi # post) = ChainMiddlewares H' (pre @ mi # post')) \<and>
   (runSteps before ctx = (c, True) \<and> step c = (c', False) \<longrightarrow>
      ChainMiddlewares H (map middlewareOf (before @ step # after)) ctx = c') \<and>
   (runSteps steps ctx = (c, True) \<longrightarrow>
      ChainMiddlewares H (map middlewareOf steps) ctx = H c \<and>
      c = foldl (\<lambda>c step. fst (step c)) ctx steps)"
proof (intro conjI impI)
  show "ChainMiddlewares H [] = H"
    by (simp add: ChainMiddlewares_def)
  show "ChainMiddlewares H [m1, m2, m3] = m1 (m2 (m3 H))"
    by (simp add: ChainMiddlewares_foldr)
  show "ChainMiddlewares H all = foldr (\<lambda>m chained. m chained) all H"
    by (simp add: ChainMiddlewares_foldr)
  show "ChainMiddlewares H (m # ms) = m (ChainMiddlewares H ms)"
    by (simp add: ChainMiddlewares_foldr)
  show "ChainMiddlewares H (ms @ [m]) = ChainMiddlewares (m H) ms"
    by (simp add: ChainMiddlewares_foldr)
next
  assume "\<forall>k k'. mi k = mi k'"
  then have "mi (ChainMiddlewares H post) = mi (ChainMiddlewares H' post')"
    by blast
  then show "ChainMiddlewares H (pre @ mi # post) = ChainMiddlewares H' (pre @ mi # post')"
    by (simp add: ChainMiddlewares_foldr)
next
  assume "runSteps before ctx = (c, True) \<and> step c = (c', False)"
  then have "runSteps (before @ step # after) ctx = (c', False)"
    by (simp add: runSteps_append)
  then show "ChainMiddlewares H (map middlewareOf (before @ step # after)) ctx = c'"
    by (simp only: ChainMiddlewares_steps) simp
next
  assume a: "runSteps steps ctx = (c, True)"
  then show "ChainMiddlewares H (map middlewareOf steps) ctx = H c"
    by (simp add: ChainMiddlewares_steps)
  from a show "c = foldl (\<lambda>c step. fst (step c)) ctx steps"
    by (rule runSteps_all)
qed



theorem ChainMiddlewares_order_witness:
  "(\<forall>k k'. (\<lambda>next. SetStatusCode 403) k = (\<lambda>next. SetStatusCode 403) k') \<and>
   ChainMiddlewares (SetBody ''ok'') ([middlewareOf (tagStep ''X-A'' ''1'')] @ (\<lambda>next. SetStatusCode 403) #
       [middlewareOf (tagStep ''X-B'' ''2'')])
     = ChainMiddlewares (SetStatusCode 204) ([middlewareOf (tagStep ''X-A'' ''1'')] @ (\<lambda>next. SetStatusCode 403) # []) \<and>
   runSteps [tagStep ''X-A'' ''1''] rootCtx = (SetRespHeader ''X-A'' ''1'' rootCtx, True) \<and>
   denyStep (SetRespHeader ''X-A'' ''1'' rootCtx) = (SetStatusCode 403 (SetRespHeader ''X-A'' ''1'' rootCtx), False) \<and>
   ChainMiddlewares (SetBody ''ok'')
       (map middlewareOf ([tagStep ''X-A'' ''1''] @ denyStep # [tagStep ''X-B'' ''2''])) rootCtx
     = SetStatusCode 403 (SetRespHeader ''X-A'' ''1'' rootCtx) \<and>
   runSteps [tagStep ''X-A'' ''1'', tagStep ''X-B'' ''2''] rootCtx
     = (SetRespHeader ''X-B'' ''2'' (SetRespHeader ''X-A'' ''1'' rootCtx), True) \<and>
   ChainMiddlewares (SetBody ''ok'') (map middlewareOf [tagStep ''X-A'' ''1'', tagStep ''X-B'' ''2'']) rootCtx
     = SetBody ''ok'' (SetRespHeader ''X-B'' ''2'' (SetRespHeader ''X-A'' ''1'' rootCtx))"
proof -
  have 1: "\<forall>k k'. (\<lambda>next. SetStatusCode 403) k = (\<lambda>next::RequestHandler. SetStatusCode 403) k'"
    by simp
  have 2: "runSteps [tagStep ''X-A'' ''1''] rootCtx = (SetRespHeader ''X-A'' ''1'' rootCtx, True) \<and>
           denyStep (SetRespHeader ''X-A'' ''1'' rootCtx)
             = (SetStatusCode 403 (SetRespHeader ''X-A'' ''1'' rootCtx), False)"
    by (simp add: tagStep_def denyStep_def)
  have 3: "runSteps [tagStep ''X-A'' ''1'', tagStep ''X-B'' ''2''] rootCtx
     = (SetRespHeader ''X-B'' ''2'' (SetRespHeader ''X-A'' ''1'' rootCtx), True)"
    by (simp add: tagStep_def)
  note a = ChainMiddlewares_order [where H = "SetBody ''ok''" and ?m1.0 = "\<lambda>next. next"
      and ?m2.0 = "\<lambda>next. next" and ?m3.0 = "\<lambda>next. next" and all = "[]"
      and m = "\<lambda>next. next" and ms = "[]" and steps = "[]" and mi = "\<lambda>next. SetStatusCode 403"
      and pre = "[middlewareOf (tagStep ''X-A'' ''1'')]" and post = "[middlewareOf (tagStep ''X-B'' ''2'')]"
      and H' = "SetStatusCode 204" and post' = "[]" and before = "[tagStep ''X-A'' ''1'']"
      and ctx = rootCtx and c = "SetRespHeader ''X-A'' ''1'' rootCtx" and step = denyStep
      and c' = "SetStatusCode 403 (SetRespHeader ''X-A'' ''1'' rootCtx)"
      and after = "[tagStep ''X-B'' ''2'']"]
  note b = ChainMiddlewares_order [where H = "SetBody ''ok''" and ?m1.0 = "\<lambda>next. next"
      and ?m2.0 = "\<lambda>next. next" and ?m3.0 = "\<lambda>next. next" and all = "[]"
      and m = "\<lambda>next. next" and ms = "[]" and mi = "\<lambda>next. next" and pre = "[]"
      and post = "[]" and H' = "SetBody ''ok''" and post' = "[]" and before = "[]"
      and step = denyStep and c' = rootCtx and after = "[]"
      and steps = "[tagStep ''X-A'' ''1'', tagStep ''X-B'' ''2'']" and ctx = rootCtx
      and c = "SetRespHeader ''X-B'' ''2'' (SetRespHeader ''X-A'' ''1'' rootCtx)"]
  from a 1 2 have c:
    "ChainMiddlewares (SetBody ''ok'') ([middlewareOf (tagStep ''X-A'' ''1'')] @ (\<lambda>next. SetStatusCode 403) #
        [middlewareOf (tagStep ''X-B'' ''2'')])
      = ChainMiddlewares (SetStatusCode 204) ([middlewareOf (tagStep ''X-A'' ''1'')] @ (\<lambda>next. SetStatusCode 403) # [])"
    "ChainMiddlewares (SetBody ''ok'')
       (map middlewareOf ([tagStep ''X-A'' ''1''] @ denyStep # [tagStep ''X-B'' ''2''])) rootCtx
     = SetStatusCode 403 (SetRespHeader ''X-A'' ''1'' rootCtx)"
    by blast+
  from b 3 have d:
    "ChainMiddlewares (SetBody ''ok'') (map middlewareOf [tagStep ''X-A'' ''1'', tagStep ''X-B'' ''2'']) rootCtx
     = SetBody ''ok'' (SetRespHeader ''X-B'' ''2'' (SetRespHeader ''X-A'' ''1'' rootCtx))"
    by blast
  from 1 2 3 c d show ?thesis by blast
qed

section \<open>The interceptor pipeline: verified claims\<close>

text \<open>
  Claim C1, as amended. For every plugin invocation that returns success, each returned
  value that is not nil replaces the working value in full, an empty mapping included;
  for a returned nil the working value stays the map that was passed to the plugin, with
  the entries that the call left in it. The values so obtained are what the next plugin is
  called with. The working header mapping is never nil. After the last plugin, when the
  body serialises, the next stage is invoked on a request whose body is the serialisation
  of the final body value and whose headers are those of the final header mapping: a name,
  other than the four that the HTTP library manages itself, reads as the value of the key
  of the final mapping that has the same canonical form, and as absent when there is
  none (the keys of the final mapping being distinct in canonical form).
\<close>

theorem successful_plugin_replaces:
  "(returned (TransportInterceptor p uri h b s) = Inr (mh, mb) \<longrightarrow>
      callPlugins uri (p # ps) (h, b, w, s) =
        callPlugins uri ps
          (case mh of None \<Rightarrow> inPlace h (headersLeft (TransportInterceptor p uri h b s))
                    | Some hs \<Rightarrow> Some hs,
           case mb of None \<Rightarrow> inPlace b (bodyLeft (TransportInterceptor p uri h b s))
                    | Some bs \<Rightarrow> Some bs,
           w, stateLeft (TransportInterceptor p uri h b s))) \<and>
   (GetLoadedPlugins cfg \<noteq> [] \<and>
    hasGovernance (governancePluginName ext) (GetLoadedPlugins cfg) \<and>
    (if length (Body (Req ctx)) > 0 then jsonUnmarshal ext (Body (Req ctx)) else Inr (Some []))
      = Inr b0 \<and>
    callPlugins (RequestURI (Req ctx)) (GetLoadedPlugins cfg)
      (Some (fst (parseHeaders (Header (Req ctx)) ([], []))), b0, Warnings ctx, state)
      = (fh, fb, fw, fs) \<and>
    jsonMarshal ext fb = Inr bytes \<and> distinct (map fst (canonical (entries fh))) \<longrightarrow>
      TransportInterceptorMiddleware ext cfg state next ctx
        = next (fst (interceptStep ext cfg state ctx)) \<and>
      Body (Req (fst (interceptStep ext cfg state ctx))) = bytes \<and>
      fh \<noteq> None \<and>
      (\<forall>k. \<not> selfManaged k \<longrightarrow>
         Peek (Header (Req (fst (interceptStep ext cfg state ctx)))) k
           = Peek (canonical (entries fh)) k))"
proof (intro conjI impI)
  assume "returned (TransportInterceptor p uri h b s) = Inr (mh, mb)"
  then show "callPlugins uri (p # ps) (h, b, w, s) =
        callPlugins uri ps
          (case mh of None \<Rightarrow> inPlace h (headersLeft (TransportInterceptor p uri h b s))
                    | Some hs \<Rightarrow> Some hs,
           case mb of None \<Rightarrow> inPlace b (bodyLeft (TransportInterceptor p uri h b s))
                    | Some bs \<Rightarrow> Some bs,
           w, stateLeft (TransportInterceptor p uri h b s))"
    by (simp add: Let_def split: option.splits)
next
  assume a: "GetLoadedPlugins cfg \<noteq> [] \<and>
    hasGovernance (governancePluginName ext) (GetLoadedPlugins cfg) \<and>
    (if length (Body (Req ctx)) > 0 then jsonUnmarshal ext (Body (Req ctx)) else Inr (Some []))
      = Inr b0 \<and>
    callPlugins (RequestURI (Req ctx)) (GetLoadedPlugins cfg)
      (Some (fst (parseHeaders (Header (Req ctx)) ([], []))), b0, Warnings ctx, state)
      = (fh, fb, fw, fs) \<and>
    jsonMarshal ext fb = Inr bytes \<and> distinct (map fst (canonical (entries fh)))"
  then have step: "interceptStep ext cfg state ctx =
     (ctx\<lparr>Req := (Req ctx)
            \<lparr>Body := bytes,
             Header := setModified (entries fh)
               (removeDeleted (map fst (Header (Req ctx))) fh (Header (Req ctx)))\<rparr>,
          Warnings := fw\<rparr>, True)"
    using interceptStep_forward [of cfg ext ctx b0 state fh fb fw fs] by simp
  from a have "fst (callPlugins (RequestURI (Req ctx)) (GetLoadedPlugins cfg)
      (Some (fst (parseHeaders (Header (Req ctx)) ([], []))), b0, Warnings ctx, state)) \<noteq> None"
    by (intro callPlugins_headers_Some) simp
  with a show nonnil: "fh \<noteq> None" by simp
  then obtain l where l: "fh = Some l" by blast
  show "TransportInterceptorMiddleware ext cfg state next ctx
          = next (fst (interceptStep ext cfg state ctx))"
    by (simp add: TransportInterceptorMiddleware_step middlewareOf_def step)
  show "Body (Req (fst (interceptStep ext cfg state ctx))) = bytes"
    by (simp add: step)
  from a have "distinct (map fst (canonical l))" by (simp add: l entries_def)
  then have "map_of (setModified l (removeDeleted (map fst (Header (Req ctx))) (Some l) (Header (Req ctx))))
       (normalizeHeaderKey k) = map_of (canonical l) (normalizeHeaderKey k)" for k
    by (rule reconcile_map_of)
  then show "\<forall>k. \<not> selfManaged k \<longrightarrow>
         Peek (Header (Req (fst (interceptStep ext cfg state ctx)))) k
           = Peek (canonical (entries fh)) k"
    by (simp add: step l entries_def Peek_def)
qed

theorem successful_plugin_replaces_witness:
  "callPlugins ''/v1/chat'' (lowerCasePlugin # []) (Some [(''X-Old'', ''1'')], Some [], [], 0)
     = callPlugins ''/v1/chat'' [] (Some [(''x-old'', ''2''), (''x-new'', ''1'')], Some [], [], 0) \<and>
   TransportInterceptorMiddleware sampleExternals (pluginConfig [nilPlugin, lowerCasePlugin]) 0
       (SetStatusCode 204) xOldCtx
     = SetStatusCode 204
         (fst (interceptStep sampleExternals (pluginConfig [nilPlugin, lowerCasePlugin]) 0 xOldCtx)) \<and>
   \<not> selfManaged ''X-New'' \<and> \<not> selfManaged ''X-Old'' \<and> \<not> selfManaged ''X-Gone'' \<and>
   Body (Req (fst (interceptStep sampleExternals (pluginConfig [nilPlugin, lowerCasePlugin]) 0 xOldCtx)))
     = ''{}'' \<and>
   Peek (Header (Req (fst (interceptStep sampleExternals (pluginConfig [nilPlugin, lowerCasePlugin]) 0 xOldCtx))))
     ''X-New'' = ''1'' \<and>
   Peek (Header (Req (fst (interceptStep sampleExternals (pluginConfig [nilPlugin, lowerCasePlugin]) 0 xOldCtx))))
     ''X-Old'' = ''2'' \<and>
   Peek (Header (Req (fst (interceptStep sampleExternals (pluginConfig [nilPlugin, lowerCasePlugin]) 0 xOldCtx))))
     ''X-Gone'' = []"
proof -
  let ?cfg = "pluginConfig [nilPlugin, lowerCasePlugin]"
  let ?fh = "Some [(''x-old'', ''2''), (''x-new'', ''1'')]"
  have 1: "returned (TransportInterceptor lowerCasePlugin ''/v1/chat'' (Some [(''X-Old'', ''1'')]) (Some []) 0)
             = Inr (?fh, None)"
    by (simp add: lowerCasePlugin_def untouched_def)
  have 2: "GetLoadedPlugins ?cfg \<noteq> [] \<and>
    hasGovernance (governancePluginName sampleExternals) (GetLoadedPlugins ?cfg) \<and>
    (if length (Body (Req xOldCtx)) > 0 then jsonUnmarshal sampleExternals (Body (Req xOldCtx))
     else Inr (Some [])) = Inr (Some []) \<and>
    callPlugins (RequestURI (Req xOldCtx)) (GetLoadedPlugins ?cfg)
      (Some (fst (parseHeaders (Header (Req xOldCtx)) ([], []))), Some [], Warnings xOldCtx, 0)
      = (?fh, Some [], [], 0) \<and>
    jsonMarshal sampleExternals (Some []) = Inr ''{}'' \<and>
    distinct (map fst (canonical (entries ?fh)))"
    by (simp add: eval_plugins lowerCasePlugin_def eval_ctx)
  have 3: "\<not> selfManaged ''X-New'' \<and> \<not> selfManaged ''X-Old'' \<and> \<not> selfManaged ''X-Gone''"
    by (simp add: selfManaged_def normalizeHeaderKey_def upper_def lower_def)
  note t = successful_plugin_replaces [where p = lowerCasePlugin and uri = "''/v1/chat''"
      and h = "Some [(''X-Old'', ''1'')]" and b = "Some []" and s = 0 and mh = ?fh
      and mb = None and ps = "[]" and w = "[]"
      and cfg = ?cfg and ext = sampleExternals and ctx = xOldCtx and state = 0
      and ?b0.0 = "Some []" and fh = ?fh and fb = "Some []" and fw = "[]" and fs = 0
      and bytes = "''{}''" and ?next = "SetStatusCode 204"]
  from t [THEN conjunct1, rule_format, OF 1]
  have a: "callPlugins ''/v1/chat'' (lowerCasePlugin # []) (Some [(''X-Old'', ''1'')], Some [], [], 0)
     = callPlugins ''/v1/chat'' [] (?fh, Some [], [], 0)"
    by (simp add: lowerCasePlugin_def untouched_def inPlace_def entries_def)
  from t 2 have b: "TransportInterceptorMiddleware sampleExternals ?cfg 0 (SetStatusCode 204) xOldCtx
     = SetStatusCode 204 (fst (interceptStep sampleExternals ?cfg 0 xOldCtx)) \<and>
   Body (Req (fst (interceptStep sampleExternals ?cfg 0 xOldCtx))) = ''{}'' \<and>
   (\<forall>k. \<not> selfManaged k \<longrightarrow>
      Peek (Header (Req (fst (interceptStep sampleExternals ?cfg 0 xOldCtx)))) k
        = Peek (canonical (entries ?fh)) k)"
    by blast
  with 3 have c: "Peek (Header (Req (fst (interceptStep sampleExternals ?cfg 0 xOldCtx)))) ''X-New''
        = Peek (canonical (entries ?fh)) ''X-New'' \<and>
      Peek (Header (Req (fst (interceptStep sampleExternals ?cfg 0 xOldCtx)))) ''X-Old''
        = Peek (canonical (entries ?fh)) ''X-Old'' \<and>
      Peek (Header (Req (fst (interceptStep sampleExternals ?cfg 0 xOldCtx)))) ''X-Gone''
        = Peek (canonical (entries ?fh)) ''X-Gone''"
    by blast
  have d: "Peek (canonical (entries ?fh)) ''X-New'' = ''1'' \<and>
      Peek (canonical (entries ?fh)) ''X-Old'' = ''2'' \<and>
      Peek (canonical (entries ?fh)) ''X-Gone'' = []"
    by (simp add: canonical_def entries_def Peek_def normalizeHeaderKey_def upper_def lower_def)
  from a b c d 3 show ?thesis by simp
qed

text \<open>
  The claim as it was stated has a returned nil replace the working value too. A plugin
  that succeeds with nil for both maps leaves the working header map and body as they
  were: the header \<^verbatim>\<open>X-Old\<close> is still on the outgoing request, whose body is the
  serialised empty object and not the serialised nil map.
\<close>

theorem nil_result_counterexample:
  "returned (TransportInterceptor nilPlugin ''/v1/chat'' (Some [(''X-Old'', ''1'')]) (Some []) 0)
     = Inr (None, None) \<and>
   callPlugins ''/v1/chat'' [nilPlugin] (Some [(''X-Old'', ''1'')], Some [], [], 0)
     = (Some [(''X-Old'', ''1'')], Some [], [], 0) \<and>
   callPlugins ''/v1/chat'' [nilPlugin] (Some [(''X-Old'', ''1'')], Some [], [], 0) \<noteq> (None, None, [], 0) \<and>
   TransportInterceptorMiddleware sampleExternals (pluginConfig [nilPlugin]) 0 (SetStatusCode 204) xOldCtx
     = SetStatusCode 204 (xOldCtx\<lparr>Req := (Req xOldCtx)\<lparr>Body := ''{}''\<rparr>\<rparr>) \<and>
   Peek (Header (Req (TransportInterceptorMiddleware sampleExternals (pluginConfig [nilPlugin]) 0
     (SetStatusCode 204) xOldCtx))) ''X-Old'' = ''1'' \<and>
   Body (Req (TransportInterceptorMiddleware sampleExternals (pluginConfig [nilPlugin]) 0
     (SetStatusCode 204) xOldCtx)) \<noteq> ''null''"
  by (simp add: eval_plugins eval_ctx)




text \<open>
  Claim C10, as amended. When the plugin snapshot is not empty and holds the governance
  plugin, a request with an empty body still goes through the plugins, starting from the
  empty object, and the next stage is invoked on a request whose body is the serialisation
  of the body value that the plugins leave. When no plugin, called with the empty object,
  writes into it or returns a body, that is the serialised empty object \<^verbatim>\<open>{}\<close>.
\<close>

theorem empty_body_rewritten:
  "(GetLoadedPlugins cfg \<noteq> [] \<and>
    hasGovernance (governancePluginName ext) (GetLoadedPlugins cfg) \<and> Body (Req ctx) = [] \<and>
    callPlugins (RequestURI (Req ctx)) (GetLoadedPlugins cfg)
      (Some (fst (parseHeaders (Header (Req ctx)) ([], []))), Some [], Warnings ctx, state)
      = (fh, fb, fw, fs) \<and>
    jsonMarshal ext fb = Inr bytes \<longrightarrow>
      TransportInterceptorMiddleware ext cfg state next ctx
        = next (fst (interceptStep ext cfg state ctx)) \<and>
      Body (Req (fst (interceptStep ext cfg state ctx))) = bytes) \<and>
   (GetLoadedPlugins cfg \<noteq> [] \<and>
    hasGovernance (governancePluginName ext) (GetLoadedPlugins cfg) \<and> Body (Req ctx) = [] \<and>
    (\<forall>p\<in>set (GetLoadedPlugins cfg). \<forall>h s.
       bodyLeft (TransportInterceptor p (RequestURI (Req ctx)) h (Some []) s) = [] \<and>
       (case returned (TransportInterceptor p (RequestURI (Req ctx)) h (Some []) s) of
          Inl err \<Rightarrow> True | Inr (mh, mb) \<Rightarrow> mb = None)) \<and>
    jsonMarshal ext (Some []) = Inr ''{}'' \<longrightarrow>
      TransportInterceptorMiddleware ext cfg state next ctx
        = next (fst (interceptStep ext cfg state ctx)) \<and>
      Body (Req (fst (interceptStep ext cfg state ctx))) = ''{}'')"
  (is "?general \<and> ?special")
proof -
  have general: "TransportInterceptorMiddleware ext cfg state next ctx
        = next (fst (interceptStep ext cfg state ctx)) \<and>
      Body (Req (fst (interceptStep ext cfg state ctx))) = bytes"
    if a: "GetLoadedPlugins cfg \<noteq> []"
      "hasGovernance (governancePluginName ext) (GetLoadedPlugins cfg)" "Body (Req ctx) = []"
      "callPlugins (RequestURI (Req ctx)) (GetLoadedPlugins cfg)
        (Some (fst (parseHeaders (Header (Req ctx)) ([], []))), Some [], Warnings ctx, state)
        = (fh, fb, fw, fs)"
      "jsonMarshal ext fb = Inr bytes"
    for fh fb fw fs bytes
  proof -
    have "(if length (Body (Req ctx)) > 0 then jsonUnmarshal ext (Body (Req ctx)) else Inr (Some []))
            = Inr (Some [])"
      using a(3) by simp
    from interceptStep_forward [OF a(1) a(2) this a(4)] a(5)
    have step: "interceptStep ext cfg state ctx =
       (ctx\<lparr>Req := (Req ctx)
              \<lparr>Body := bytes,
               Header := setModified (entries fh)
                 (removeDeleted (map fst (Header (Req ctx))) fh (Header (Req ctx)))\<rparr>,
            Warnings := fw\<rparr>, True)"
      by simp
    show ?thesis
      by (simp add: TransportInterceptorMiddleware_step middlewareOf_def step)
  qed
  have special: "TransportInterceptorMiddleware ext cfg state next ctx
        = next (fst (interceptStep ext cfg state ctx)) \<and>
      Body (Req (fst (interceptStep ext cfg state ctx))) = ''{}''"
    if a: "GetLoadedPlugins cfg \<noteq> []"
      "hasGovernance (governancePluginName ext) (GetLoadedPlugins cfg)" "Body (Req ctx) = []"
      "\<forall>p\<in>set (GetLoadedPlugins cfg). \<forall>h s.
         bodyLeft (TransportInterceptor p (RequestURI (Req ctx)) h (Some []) s) = [] \<and>
         (case returned (TransportInterceptor p (RequestURI (Req ctx)) h (Some []) s) of
            Inl err \<Rightarrow> True | Inr (mh, mb) \<Rightarrow> mb = None)"
      "jsonMarshal ext (Some []) = Inr ''{}''"
  proof -
    let ?s = "(Some (fst (parseHeaders (Header (Req ctx)) ([], []))), Some [], Warnings ctx, state)"
    obtain fh fb fw fs
      where r: "callPlugins (RequestURI (Req ctx)) (GetLoadedPlugins cfg) ?s = (fh, fb, fw, fs)"
      by (cases "callPlugins (RequestURI (Req ctx)) (GetLoadedPlugins cfg) ?s")
    have "fst (snd (callPlugins (RequestURI (Req ctx)) (GetLoadedPlugins cfg) ?s)) = Some []"
      using a(4) by (rule callPlugins_body_kept)
    then have "fb = Some []" by (simp add: r)
    with a(5) have "jsonMarshal ext fb = Inr ''{}''" by simp
    from general [OF a(1) a(2) a(3) r this] show ?thesis .
  qed
  have 1: ?general
    by (intro impI, elim conjE, rule general)
  have 2: ?special
    by (intro impI, elim conjE, rule special)
  show ?thesis
    by (rule conjI [OF 1 2])
qed

theorem empty_body_rewritten_witness:
  \<open>TransportInterceptorMiddleware sampleExternals (pluginConfig [nilPlugin]) 0 (SetStatusCode 204) xOldCtx
     = SetStatusCode 204 (fst (interceptStep sampleExternals (pluginConfig [nilPlugin]) 0 xOldCtx)) \<and>
   Body (Req (fst (interceptStep sampleExternals (pluginConfig [nilPlugin]) 0 xOldCtx))) = ''{}'' \<and>
   TransportInterceptorMiddleware sampleExternals (pluginConfig [inPlaceModel]) 0 (SetStatusCode 204) xOldCtx
     = SetStatusCode 204 (fst (interceptStep sampleExternals (pluginConfig [inPlaceModel]) 0 xOldCtx)) \<and>
   Body (Req (fst (interceptStep sampleExternals (pluginConfig [inPlaceModel]) 0 xOldCtx)))
     = ''{"model":"gpt-4o"}''\<close>
proof -
  have 1: "GetLoadedPlugins (pluginConfig [nilPlugin]) \<noteq> [] \<and>
    hasGovernance (governancePluginName sampleExternals) (GetLoadedPlugins (pluginConfig [nilPlugin])) \<and>
    Body (Req xOldCtx) = [] \<and>
    (\<forall>p\<in>set (GetLoadedPlugins (pluginConfig [nilPlugin])). \<forall>h s.
       bodyLeft (TransportInterceptor p (RequestURI (Req xOldCtx)) h (Some []) s) = [] \<and>
       (case returned (TransportInterceptor p (RequestURI (Req xOldCtx)) h (Some []) s) of
          Inl err \<Rightarrow> True | Inr (mh, mb) \<Rightarrow> mb = None)) \<and>
    jsonMarshal sampleExternals (Some []) = Inr ''{}''"
    by (simp add: eval_plugins eval_ctx)
  have 2: \<open>GetLoadedPlugins (pluginConfig [inPlaceModel]) \<noteq> [] \<and>
    hasGovernance (governancePluginName sampleExternals) (GetLoadedPlugins (pluginConfig [inPlaceModel])) \<and>
    Body (Req xOldCtx) = [] \<and>
    callPlugins (RequestURI (Req xOldCtx)) (GetLoadedPlugins (pluginConfig [inPlaceModel]))
      (Some (fst (parseHeaders (Header (Req xOldCtx)) ([], []))), Some [], Warnings xOldCtx, 0)
      = (Some [(''X-Old'', ''1'')], Some [(''model'', ''gpt-4o'')], [], 0) \<and>
    jsonMarshal sampleExternals (Some [(''model'', ''gpt-4o'')]) = Inr ''{"model":"gpt-4o"}''\<close>
    by (simp add: eval_plugins eval_ctx)
  from empty_body_rewritten [where cfg = "pluginConfig [nilPlugin]" and ext = sampleExternals
      and ctx = xOldCtx and ?next = "SetStatusCode 204" and state = 0,
      THEN conjunct2, rule_format, OF 1]
  have a: "TransportInterceptorMiddleware sampleExternals (pluginConfig [nilPlugin]) 0 (SetStatusCode 204) xOldCtx
     = SetStatusCode 204 (fst (interceptStep sampleExternals (pluginConfig [nilPlugin]) 0 xOldCtx)) \<and>
   Body (Req (fst (interceptStep sampleExternals (pluginConfig [nilPlugin]) 0 xOldCtx))) = ''{}''"
    .
  from empty_body_rewritten [where cfg = "pluginConfig [inPlaceModel]" and ext = sampleExternals
      and ctx = xOldCtx and ?next = "SetStatusCode 204" and state = 0 and fh = "Some [(''X-Old'', ''1'')]"
      and fb = "Some [(''model'', ''gpt-4o'')]" and fw = "[]" and fs = 0
      and bytes = \<open>''{"model":"gpt-4o"}''\<close>, THEN conjunct1, rule_format, OF 2]
  have b: \<open>TransportInterceptorMiddleware sampleExternals (pluginConfig [inPlaceModel]) 0 (SetStatusCode 204) xOldCtx
     = SetStatusCode 204 (fst (interceptStep sampleExternals (pluginConfig [inPlaceModel]) 0 xOldCtx)) \<and>
   Body (Req (fst (interceptStep sampleExternals (pluginConfig [inPlaceModel]) 0 xOldCtx)))
     = ''{"model":"gpt-4o"}''\<close>
    .
  from a b show ?thesis by (intro conjI) simp_all
qed

text \<open>
  The claim as it was stated has the outgoing body be \<^verbatim>\<open>{}\<close> whatever the plugins
  do. A governance plugin that returns a body with the field \<^verbatim>\<open>model\<close>, or one that
  sets that field in the body map it is given and returns nil, makes the outgoing body
  the serialisation of that object.
\<close>

theorem body_adding_plugin_counterexample:
  \<open>GetLoadedPlugins (pluginConfig [modelPlugin]) \<noteq> [] \<and>
   hasGovernance (governancePluginName sampleExternals) (GetLoadedPlugins (pluginConfig [modelPlugin])) \<and>
   Body (Req xOldCtx) = [] \<and>
   TransportInterceptorMiddleware sampleExternals (pluginConfig [modelPlugin]) 0 (SetStatusCode 204) xOldCtx
     = SetStatusCode 204 (xOldCtx\<lparr>Req := (Req xOldCtx)\<lparr>Body := ''{"model":"gpt-4o"}''\<rparr>\<rparr>) \<and>
   Body (Req (TransportInterceptorMiddleware sampleExternals (pluginConfig [modelPlugin]) 0
       (SetStatusCode 204) xOldCtx)) \<noteq> ''{}'' \<and>
   hasGovernance (governancePluginName sampleExternals) (GetLoadedPlugins (pluginConfig [inPlaceModel])) \<and>
   returned (TransportInterceptor inPlaceModel (RequestURI (Req xOldCtx)) (Some [(''X-Old'', ''1'')])
     (Some []) 0) = Inr (None, None) \<and>
   Body (Req (TransportInterceptorMiddleware sampleExternals (pluginConfig [inPlaceModel]) 0
       (SetStatusCode 204) xOldCtx)) = ''{"model":"gpt-4o"}''\<close>
  by (simp add: eval_plugins eval_ctx)

section \<open>The static UI server: verified claims\<close>

text \<open>
  Claim C6. For every request path, with the path resolved into the bundle: a file found
  at the resolved path is served; when there is none and the last segment of the resolved
  path contains a dot, the answer is 404 for a static asset, with no fallback; when there
  is none and the last segment has no dot, the file at the resolved path followed by
  \<^verbatim>\<open>/index.html\<close> is served if there is one, else the root \<^verbatim>\<open>ui/index.html\<close> if there
  is one, else the answer is 404. A served file leaves the status code as it was, which
  reads as 200 on a response whose status was never set.
\<close>

theorem serveDashboard_lookup_order:
  "(uiContent h (bundlePath (Path (Req ctx))) = Some d \<longrightarrow>
      RespBody (Resp (serveDashboard ext h ctx)) = Bytes d \<and>
      statusCode (Resp (serveDashboard ext h ctx)) = statusCode (Resp ctx)) \<and>
   (uiContent h (bundlePath (Path (Req ctx))) = None \<and>
    CHR ''.'' \<in> set (Base (bundlePath (Path (Req ctx)))) \<longrightarrow>
      StatusCode (Resp (serveDashboard ext h ctx)) = 404 \<and>
      RespBody (Resp (serveDashboard ext h ctx))
        = Bytes (''404 - Static asset not found: '' @ Path (Req ctx))) \<and>
   (uiContent h (bundlePath (Path (Req ctx))) = None \<and>
    CHR ''.'' \<notin> set (Base (bundlePath (Path (Req ctx)))) \<and>
    uiContent h (bundlePath (Path (Req ctx)) @ ''/index.html'') = Some d \<longrightarrow>
      RespBody (Resp (serveDashboard ext h ctx)) = Bytes d \<and>
      statusCode (Resp (serveDashboard ext h ctx)) = statusCode (Resp ctx)) \<and>
   (uiContent h (bundlePath (Path (Req ctx))) = None \<and>
    CHR ''.'' \<notin> set (Base (bundlePath (Path (Req ctx)))) \<and>
    uiContent h (bundlePath (Path (Req ctx)) @ ''/index.html'') = None \<and>
    uiContent h ''ui/index.html'' = Some d \<longrightarrow>
      RespBody (Resp (serveDashboard ext h ctx)) = Bytes d \<and>
      statusCode (Resp (serveDashboard ext h ctx)) = statusCode (Resp ctx) \<and>
      (statusCode (Resp ctx) = 0 \<longrightarrow> StatusCode (Resp (serveDashboard ext h ctx)) = 200)) \<and>
   (uiContent h (bundlePath (Path (Req ctx))) = None \<and>
    CHR ''.'' \<notin> set (Base (bundlePath (Path (Req ctx)))) \<and>
    uiContent h (bundlePath (Path (Req ctx)) @ ''/index.html'') = None \<and>
    uiContent h ''ui/index.html'' = None \<longrightarrow>
      StatusCode (Resp (serveDashboard ext h ctx)) = 404 \<and>
      RespBody (Resp (serveDashboard ext h ctx)) = Bytes ''404 - File not found'')"
  by (simp add: serveDashboard_def Let_def Contains_single sendFile_body StatusCode_def
      SetBody_def SetStatusCode_def StatusNotFound_def)

theorem serveDashboard_lookup_order_witness:
  "RespBody (Resp (serveDashboard sampleExternals rootOnly (getCtx ''/dashboard''))) = Bytes ''<html>root</html>'' \<and>
   StatusCode (Resp (serveDashboard sampleExternals rootOnly (getCtx ''/dashboard''))) = 200 \<and>
   StatusCode (Resp (serveDashboard sampleExternals rootOnly (getCtx ''/logo.png''))) = 404 \<and>
   RespBody (Resp (serveDashboard sampleExternals rootOnly (getCtx ''/logo.png'')))
     = Bytes ''404 - Static asset not found: /logo.png'' \<and>
   RespBody (Resp (serveDashboard sampleExternals rootOnly (getCtx ''/''))) = Bytes ''<html>root</html>''"
proof -
  have p: "Path (Req (getCtx ''/dashboard'')) = ''/dashboard''" "Path (Req (getCtx ''/logo.png'')) = ''/logo.png''"
    "Path (Req (getCtx ''/'')) = ''/''" "statusCode (Resp (getCtx ''/dashboard'')) = 0"
    by (simp_all add: getCtx_def newCtx_def newRequest_def freshResponse_def)
  have a: "uiContent rootOnly (bundlePath (Path (Req (getCtx ''/dashboard'')))) = None \<and>
      CHR ''.'' \<notin> set (Base (bundlePath (Path (Req (getCtx ''/dashboard''))))) \<and>
      uiContent rootOnly (bundlePath (Path (Req (getCtx ''/dashboard''))) @ ''/index.html'') = None \<and>
      uiContent rootOnly ''ui/index.html'' = Some ''<html>root</html>''"
    by (simp add: p bundlePath_dashboard rootOnly_def Base_def)
  have b: "uiContent rootOnly (bundlePath (Path (Req (getCtx ''/logo.png'')))) = None \<and>
      CHR ''.'' \<in> set (Base (bundlePath (Path (Req (getCtx ''/logo.png'')))))"
    by (simp add: p bundlePath_logo rootOnly_def Base_def)
  have c: "uiContent rootOnly (bundlePath (Path (Req (getCtx ''/'')))) = Some ''<html>root</html>''"
    by (simp add: p bundlePath_root rootOnly_def)
  from serveDashboard_lookup_order [of rootOnly "getCtx ''/dashboard''" "''<html>root</html>''" sampleExternals] a p(4)
  have 1: "RespBody (Resp (serveDashboard sampleExternals rootOnly (getCtx ''/dashboard''))) = Bytes ''<html>root</html>'' \<and>
   StatusCode (Resp (serveDashboard sampleExternals rootOnly (getCtx ''/dashboard''))) = 200"
    by blast
  from serveDashboard_lookup_order [of rootOnly "getCtx ''/logo.png''" _ sampleExternals] b p(2)
  have 2: "StatusCode (Resp (serveDashboard sampleExternals rootOnly (getCtx ''/logo.png''))) = 404 \<and>
   RespBody (Resp (serveDashboard sampleExternals rootOnly (getCtx ''/logo.png'')))
     = Bytes ''404 - Static asset not found: /logo.png''"
    by simp
  from serveDashboard_lookup_order [of rootOnly "getCtx ''/''" "''<html>root</html>''" sampleExternals] c
  have 3: "RespBody (Resp (serveDashboard sampleExternals rootOnly (getCtx ''/''))) = Bytes ''<html>root</html>''"
    by blast
  from 1 2 3 show ?thesis by blast
qed

end
